theory Spec2Isabelle
  imports Main "HOL-Library.Multiset" "HOL-Library.Word"
begin

section \<open>Data model (parse.h)\<close>

text \<open>
  Modelled from the spec: parse.h, which declares \<open>netdef_type\<close>, \<open>netdef_backend\<close>,
  \<open>wifi_mode\<close>, \<open>wifi_access_point\<close> and \<open>net_definition\<close>, is not among the sources.
  nm.c names the enumerators \<open>ND_ETHERNET\<close>, \<open>ND_WIFI\<close>, \<open>ND_BRIDGE\<close> and the threshold
  \<open>ND_VIRTUAL\<close>; the spec (section 3) says that the threshold separates the physical
  types (ethernet, wifi) from the virtual ones (bridge). The enumerators are a datatype
  and the order that nm.c's comparisons \<open>type >= ND_VIRTUAL\<close> and \<open>type < ND_VIRTUAL\<close>
  read is given by \<open>netdef_type_rank\<close>.
\<close>

datatype netdef_type = ND_ETHERNET | ND_WIFI | ND_BRIDGE

fun netdef_type_rank :: "netdef_type \<Rightarrow> nat" where
  "netdef_type_rank ND_ETHERNET = 1"
| "netdef_type_rank ND_WIFI = 2"
| "netdef_type_rank ND_BRIDGE = 3"

definition ND_VIRTUAL :: nat where
  "ND_VIRTUAL = 3"

datatype netdef_backend = BACKEND_NONE | BACKEND_NETWORKD | BACKEND_NM

datatype wifi_mode = WIFI_MODE_INFRASTRUCTURE | WIFI_MODE_ADHOC | WIFI_MODE_AP

text \<open>
  A \<open>char *\<close> field that may be \<open>NULL\<close> is a \<open>string option\<close>; the tests
  \<open>if (def->set_name)\<close> of the source are tests for \<open>Some\<close>. A string is the list of
  the bytes before the terminating zero byte.
\<close>

record wifi_access_point =
  ssid :: string
  mode :: wifi_mode
  password :: "string option"

record netdef_match =
  mac :: "string option"
  driver :: "string option"
  original_name :: "string option"

text \<open>
  \<open>access_points\<close> is a \<open>GHashTable *\<close> from SSID to access point, \<open>NULL\<close> for
  non-wifi definitions: \<open>None\<close> is the null pointer, \<open>Some kvs\<close> lists the entries in
  the order in which the table's iterator visits them.
\<close>

record net_definition =
  type :: netdef_type
  backend :: netdef_backend
  id_nd :: string
  set_name :: "string option"
  has_match :: bool
  match :: netdef_match
  bridge :: "string option"
  dhcp4 :: bool
  wake_on_lan :: bool
  access_points :: "(string \<times> wifi_access_point) list option"

section \<open>Process state and failures\<close>

text \<open>
  \<open>exit(n)\<close> and a failed \<open>g_assert\<close> (which calls \<open>abort()\<close>) end the process; they
  are the two errors of the model. A function with effects returns its error or \<open>()\<close>
  together with the state of the world at that moment, so that what was written before a
  failure stays visible.
\<close>

datatype error = Exit nat | Abort

text \<open>
  \<open>mode_t\<close> values are kept to the nine permission bits, which is all that \<open>umask(2)\<close>
  stores (\<open>mask & 0777\<close>); \<open>077\<close> octal is 63.
\<close>

type_synonym mode_t = "9 word"

text \<open>
  One call of the artifact writer that succeeded: the root directory and the relative path
  it was given, the bytes, and the file-creation mask of the process at that moment.
\<close>

record artifact =
  art_root :: "string option"
  art_path :: string
  art_content :: string
  art_umask :: mode_t

text \<open>
  The world: the files written so far (oldest first), the diagnostic stream, the process's
  file-creation mask, the global \<open>GString* udev_rules\<close> of nm.c line 12 (\<open>None\<close> is the
  null pointer it starts as), and the file system's answer to a write (which writes fail).
\<close>

record world =
  artifacts :: "artifact list"
  stderr :: string
  umask :: mode_t
  udev_rules :: "string option"
  write_fails :: "string option \<Rightarrow> string \<Rightarrow> bool"

definition sys_umask :: "mode_t \<Rightarrow> world \<Rightarrow> mode_t \<times> world" where
  "sys_umask m w = (umask w, w\<lparr>umask := m\<rparr>)"

text \<open>
  Modelled from the spec: util.c, which defines \<open>g_string_free_to_file(s, rootdir, path,
  suffix)\<close>, is not among the sources. Spec sections 1, 6 and 7: the writer puts the
  content at the path (followed by the suffix when there is one) relative to the optional
  root prefix, and an I/O error is fatal to the run. The exit status 1 is the one nm.c
  uses for its own fatal errors.
\<close>

definition g_string_free_to_file ::
  "string \<Rightarrow> string option \<Rightarrow> string \<Rightarrow> string option \<Rightarrow> world \<Rightarrow> (error + unit) \<times> world" where
  "g_string_free_to_file s rootdir path suffix w =
     (let full = path @ (case suffix of None \<Rightarrow> [] | Some x \<Rightarrow> x) in
      if write_fails w rootdir full then (Inl (Exit 1), w)
      else (Inr (), w\<lparr>artifacts := artifacts w @
              [\<lparr>art_root = rootdir, art_path = full, art_content = s, art_umask = umask w\<rparr>]\<rparr>))"

section \<open>Library functions (libc, GLib)\<close>

text \<open>
  \<open>strpbrk(s, accept)\<close>: the suffix of \<open>s\<close> that starts at the first character which
  occurs in \<open>accept\<close>, or \<open>NULL\<close>.
\<close>

fun strpbrk :: "string \<Rightarrow> string \<Rightarrow> string option" where
  "strpbrk [] accept = None"
| "strpbrk (c # cs) accept = (if c \<in> set accept then Some (c # cs) else strpbrk cs accept)"

text \<open>
  \<open>g_uri_escape_string(unescaped, NULL, TRUE)\<close> of GLib, for the two arguments nm.c
  passes: no reserved character is allowed, UTF-8 is. A byte from \<open>0x80\<close> up that starts a
  valid UTF-8 character is copied with the rest of that character; an unreserved ASCII
  character (alphanumeric, \<open>-\<close>, \<open>.\<close>, \<open>_\<close>, \<open>~\<close>) is copied; any other byte becomes \<open>%\<close> and
  its two upper-case hexadecimal digits. \<open>g_utf8_char_len\<close> is the length of the
  valid multi-byte character at the head of the string, 0 if there is none: the lead byte
  gives the length, the other bytes are continuation bytes, the code point is not
  over-long, not a surrogate and below \<open>0x110000\<close>.
\<close>

definition is_cont :: "char \<Rightarrow> bool" where
  "is_cont c = (0x80 \<le> (of_char c :: nat) \<and> (of_char c :: nat) < 0xC0)"

fun utf8_cont :: "nat \<Rightarrow> nat \<Rightarrow> string \<Rightarrow> nat option" where
  "utf8_cont wc 0 cs = Some wc"
| "utf8_cont wc (Suc n) [] = None"
| "utf8_cont wc (Suc n) (c # cs) =
     (if is_cont c then utf8_cont (wc * 64 + (of_char c :: nat) mod 64) n cs else None)"

definition unicode_valid :: "nat \<Rightarrow> bool" where
  "unicode_valid wc = (wc < 0x110000 \<and> \<not> (0xD800 \<le> wc \<and> wc < 0xE000))"

definition utf8_checked :: "nat \<Rightarrow> nat \<Rightarrow> nat \<Rightarrow> string \<Rightarrow> nat" where
  "utf8_checked len wc0 min_code cs =
     (case utf8_cont wc0 (len - 1) cs of
        None \<Rightarrow> 0
      | Some wc \<Rightarrow> if wc < min_code \<or> \<not> unicode_valid wc then 0 else len)"

definition g_utf8_char_len :: "string \<Rightarrow> nat" where
  "g_utf8_char_len s =
     (case s of
        [] \<Rightarrow> 0
      | c # cs \<Rightarrow>
          let b = (of_char c :: nat) in
          if b < 0xC0 then 0
          else if b < 0xE0 then utf8_checked 2 (b mod 32) 0x80 cs
          else if b < 0xF0 then utf8_checked 3 (b mod 16) 0x800 cs
          else if b < 0xF8 then utf8_checked 4 (b mod 8) 0x10000 cs
          else 0)"

definition g_ascii_isalnum :: "char \<Rightarrow> bool" where
  "g_ascii_isalnum c =
     (let b = (of_char c :: nat) in
      (0x30 \<le> b \<and> b \<le> 0x39) \<or> (0x41 \<le> b \<and> b \<le> 0x5A) \<or> (0x61 \<le> b \<and> b \<le> 0x7A))"

definition is_valid :: "char \<Rightarrow> bool" where
  "is_valid c = (g_ascii_isalnum c \<or> c = CHR ''-'' \<or> c = CHR ''.'' \<or> c = CHR ''_'' \<or> c = CHR ''~'')"

definition hex :: string where
  "hex = ''0123456789ABCDEF''"

fun g_string_append_uri_escaped :: "string \<Rightarrow> string \<Rightarrow> string" where
  "g_string_append_uri_escaped string [] = string"
| "g_string_append_uri_escaped string (c # cs) =
     (if 0x80 \<le> (of_char c :: nat) \<and> 0 < g_utf8_char_len (c # cs)
      then g_string_append_uri_escaped
             (string @ take (g_utf8_char_len (c # cs)) (c # cs))
             (drop (g_utf8_char_len (c # cs)) (c # cs))
      else if is_valid c then g_string_append_uri_escaped (string @ [c]) cs
      else g_string_append_uri_escaped
             (string @ [CHR ''%'', hex ! ((of_char c :: nat) div 16), hex ! ((of_char c :: nat) mod 16)])
             cs)"

definition g_uri_escape_string :: "string \<Rightarrow> string" where
  "g_uri_escape_string unescaped = g_string_append_uri_escaped [] unescaped"

section \<open>Match specifier encoder\<close>


text \<open>
  \<open>g_string_append_netdef_match(s, def)\<close>, nm.c lines 17 to 47. The \<open>GString\<close> is the
  string built so far; the result is the string after the appends, or \<open>Abort\<close> where an
  assertion fails. glibc prints \<open>(null)\<close> for a null \<open>%s\<close> argument; that case of the
  second branch cannot arise, since the branch is entered for a physical type only with
  one of the two names set.
\<close>

definition g_string_append_netdef_match :: "string \<Rightarrow> net_definition \<Rightarrow> error + string" where
  "g_string_append_netdef_match s def =
     (if \<not> (driver (match def) = None \<or> set_name def \<noteq> None) then Inl Abort
      else case mac (match def) of
        Some m \<Rightarrow> Inr (s @ ''mac:'' @ m)
      | None \<Rightarrow>
          if original_name (match def) \<noteq> None \<or> set_name def \<noteq> None
             \<or> ND_VIRTUAL \<le> netdef_type_rank (type def)
          then Inr (s @ ''interface-name:'' @
                 (if ND_VIRTUAL \<le> netdef_type_rank (type def) then id_nd def
                  else case set_name def of
                         Some n \<Rightarrow> n
                       | None \<Rightarrow> (case original_name (match def) of
                                    Some n \<Rightarrow> n
                                  | None \<Rightarrow> ''(null)'')))
          else (case type def of
                  ND_ETHERNET \<Rightarrow> Inr (s @ ''type:ethernet'')
                | _ \<Rightarrow> Inl Abort))"

section \<open>Connection files\<close>

text \<open>
  \<open>type_str\<close> and \<open>wifi_mode_str\<close>, nm.c lines 52 to 83. Their \<open>default:\<close> branches
  (\<open>g_assert_not_reached\<close>) are for values outside the enumerators listed; the
  datatypes have no such value.
\<close>

fun type_str :: "netdef_type \<Rightarrow> string" where
  "type_str ND_ETHERNET = ''ethernet''"
| "type_str ND_WIFI = ''wifi''"
| "type_str ND_BRIDGE = ''bridge''"

fun wifi_mode_str :: "wifi_mode \<Rightarrow> string" where
  "wifi_mode_str WIFI_MODE_INFRASTRUCTURE = ''infrastructure''"
| "wifi_mode_str WIFI_MODE_ADHOC = ''adhoc''"
| "wifi_mode_str WIFI_MODE_AP = ''ap''"

text \<open>
  nm.c lines 112 to 132 of \<open>write_nm_conf_access_point\<close>: the \<open>interface-name=\<close> line.
  The only failure is the \<open>exit(1)\<close> after the globbing diagnostic.
\<close>

definition append_interface_name :: "net_definition \<Rightarrow> string \<Rightarrow> world \<Rightarrow> (error \<times> world) + string" where
  "append_interface_name def s w =
     (if netdef_type_rank (type def) < ND_VIRTUAL then
        (case set_name def of
           Some n \<Rightarrow> Inr (s @ ''interface-name='' @ n @ ''\<newline>'')
         | None \<Rightarrow>
             if \<not> has_match def then Inr (s @ ''interface-name='' @ id_nd def @ ''\<newline>'')
             else (case original_name (match def) of
                     Some n \<Rightarrow>
                       if strpbrk n ''*[]?'' \<noteq> None
                       then Inl (Exit 1, w\<lparr>stderr := stderr w @ ''ERROR: '' @ id_nd def @
                              '': NetworkManager definitions do not support name globbing\<newline>''\<rparr>)
                       else Inr (s @ ''interface-name='' @ n @ ''\<newline>'')
                   | None \<Rightarrow> Inr s))
      else Inr (s @ ''interface-name='' @ id_nd def @ ''\<newline>''))"

text \<open>
  nm.c lines 136 to 150: the \<open>[ethernet]\<close> section and the MAC binding of a physical
  device.
\<close>

definition append_physical_link :: "net_definition \<Rightarrow> string \<Rightarrow> error + string" where
  "append_physical_link def s =
     (if netdef_type_rank (type def) < ND_VIRTUAL then
        (let s1 = s @ ''\<newline>[ethernet]\<newline>wake-on-lan='' @ (if wake_on_lan def then ''1'' else ''0'') @ ''\<newline>'' in
         case (set_name def, mac (match def)) of
           (None, Some m) \<Rightarrow>
             (case type def of
                ND_ETHERNET \<Rightarrow> Inr (s1 @ ''\<newline>[802-3-ethernet]\<newline>'' @ ''mac-address='' @ m @ ''\<newline>'')
              | ND_WIFI \<Rightarrow> Inr (s1 @ ''\<newline>[802-11-wireless]\<newline>'' @ ''mac-address='' @ m @ ''\<newline>'')
              | _ \<Rightarrow> Inl Abort)
         | _ \<Rightarrow> Inr s1)
      else Inr s)"

text \<open>
  nm.c lines 155 to 169: the path of the connection file and the wifi sections. The first
  assignment to \<open>conf_path\<close> (line 155) is overwritten on both branches.
\<close>

definition append_wifi :: "net_definition \<Rightarrow> wifi_access_point option \<Rightarrow> string \<Rightarrow> string \<times> string" where
  "append_wifi def ap s =
     (case ap of
        Some a \<Rightarrow>
          (let escaped_ssid = g_uri_escape_string (ssid a);
               conf_path = ''run/NetworkManager/system-connections/ubuntu-network-'' @ id_nd def @ ''-'' @ escaped_ssid;
               s1 = (if mode a = WIFI_MODE_AP then s @ ''\<newline>[ipv4]\<newline>method=shared\<newline>'' else s);
               s2 = s1 @ ''\<newline>[wifi]\<newline>ssid='' @ ssid a @ ''\<newline>mode='' @ wifi_mode_str (mode a) @ ''\<newline>'';
               s3 = (case password a of
                       Some pw \<Rightarrow> s2 @ ''\<newline>[wifi-security]\<newline>key-mgmt=wpa-psk\<newline>psk='' @ pw @ ''\<newline>''
                     | None \<Rightarrow> s2)
           in (conf_path, s3))
      | None \<Rightarrow> (''run/NetworkManager/system-connections/ubuntu-network-'' @ id_nd def, s))"

text \<open>\<open>write_nm_conf_access_point(def, rootdir, ap)\<close>, nm.c lines 95 to 175.\<close>

definition write_nm_conf_access_point ::
  "net_definition \<Rightarrow> string option \<Rightarrow> wifi_access_point option \<Rightarrow> world \<Rightarrow> (error + unit) \<times> world" where
  "write_nm_conf_access_point def rootdir ap w =
     (if (if type def = ND_WIFI then ap = None else ap \<noteq> None) then (Inl Abort, w)
      else
        let s0 = ''[connection]\<newline>id=ubuntu-network-'' @ id_nd def;
            s1 = (case ap of Some a \<Rightarrow> s0 @ ''-'' @ ssid a | None \<Rightarrow> s0);
            s2 = s1 @ ''\<newline>type='' @ type_str (type def) @ ''\<newline>''
        in (case append_interface_name def s2 w of
              Inl (e, w') \<Rightarrow> (Inl e, w')
            | Inr s3 \<Rightarrow>
                (let s4 = (case bridge def of
                             Some b \<Rightarrow> s3 @ ''slave-type=bridge\<newline>master='' @ b @ ''\<newline>''
                           | None \<Rightarrow> s3)
                 in (case append_physical_link def s4 of
                       Inl e \<Rightarrow> (Inl e, w)
                     | Inr s5 \<Rightarrow>
                         (let s6 = (if dhcp4 def then s5 @ ''\<newline>[ipv4]\<newline>method=auto\<newline>'' else s5);
                              (conf_path, s7) = append_wifi def ap s6;
                              (orig_umask, w1) = sys_umask 63 w
                          in (case g_string_free_to_file s7 rootdir conf_path None w1 of
                                (Inl e, w2) \<Rightarrow> (Inl e, w2)
                              | (Inr u, w2) \<Rightarrow> (Inr (), snd (sys_umask orig_umask w2))))))))"

text \<open>
  The loop of nm.c lines 202 to 204 over the entries of \<open>def->access_points\<close>; the key
  is read and not used.
\<close>

fun write_nm_conf_access_points ::
  "net_definition \<Rightarrow> string option \<Rightarrow> (string \<times> wifi_access_point) list \<Rightarrow> world \<Rightarrow> (error + unit) \<times> world" where
  "write_nm_conf_access_points def rootdir [] w = (Inr (), w)"
| "write_nm_conf_access_points def rootdir ((key, ap) # rest) w =
     (case write_nm_conf_access_point def rootdir (Some ap) w of
        (Inl e, w') \<Rightarrow> (Inl e, w')
      | (Inr u, w') \<Rightarrow> write_nm_conf_access_points def rootdir rest w')"

text \<open>
  \<open>write_nm_conf(def, rootdir)\<close>, nm.c lines 183 to 209. The \<open>g_debug\<close> message of the
  first branch goes to the log, which the model leaves out.
\<close>

definition write_nm_conf :: "net_definition \<Rightarrow> string option \<Rightarrow> world \<Rightarrow> (error + unit) \<times> world" where
  "write_nm_conf def rootdir w =
     (if backend def \<noteq> BACKEND_NM then (Inr (), w)
      else if driver (match def) \<noteq> None \<and> set_name def = None
      then (Inl (Exit 1), w\<lparr>stderr := stderr w @ ''ERROR: '' @ id_nd def @
              '': NetworkManager definitions do not support matching by driver\<newline>''\<rparr>)
      else if type def = ND_WIFI then
        (case access_points def of
           None \<Rightarrow> (Inl Abort, w)
         | Some aps \<Rightarrow> write_nm_conf_access_points def rootdir aps w)
      else
        (case access_points def of
           Some aps \<Rightarrow> (Inl Abort, w)
         | None \<Rightarrow> write_nm_conf_access_point def rootdir None w))"

section \<open>Exclusion of the devices of other backends\<close>

definition udev_rule :: "string \<Rightarrow> string" where
  \<open>udev_rule drv =
     ''ACTION=="add|change", SUBSYSTEM=="net", ENV{ID_NET_DRIVER}=="'' @ drv @
     ''", ENV{NM_UNMANAGED}="1"\<newline>''\<close>

text \<open>
  \<open>nd_append_non_nm_ids(key, value, str)\<close>, nm.c lines 211 to 227: the callback of the
  iteration over all definitions. It returns the buffer \<open>str\<close> and the world (whose
  \<open>udev_rules\<close> it may extend).
\<close>

definition nd_append_non_nm_ids ::
  "string \<Rightarrow> net_definition \<Rightarrow> string \<Rightarrow> world \<Rightarrow> (error + string) \<times> world" where
  "nd_append_non_nm_ids key nd str w =
     (if backend nd \<noteq> BACKEND_NM then
        (case driver (match nd) of
           Some drv \<Rightarrow>
             (Inr str, w\<lparr>udev_rules := Some ((case udev_rules w of None \<Rightarrow> [] | Some r \<Rightarrow> r) @ udev_rule drv)\<rparr>)
         | None \<Rightarrow>
             (case g_string_append_netdef_match str nd of
                Inl e \<Rightarrow> (Inl e, w)
              | Inr s \<Rightarrow> (Inr (s @ '',''), w)))
      else (Inr str, w))"

text \<open>
  \<open>g_hash_table_foreach(table, func, user_data)\<close> of GLib: the entries of the table
  are a list in the order of the iteration.
\<close>

fun g_hash_table_foreach ::
  "('k \<times> 'v) list \<Rightarrow> ('k \<Rightarrow> 'v \<Rightarrow> string \<Rightarrow> world \<Rightarrow> (error + string) \<times> world) \<Rightarrow> string \<Rightarrow> world
     \<Rightarrow> (error + string) \<times> world" where
  "g_hash_table_foreach [] func str w = (Inr str, w)"
| "g_hash_table_foreach ((key, v) # rest) func str w =
     (case func key v str w of
        (Inl e, w') \<Rightarrow> (Inl e, w')
      | (Inr str', w') \<Rightarrow> g_hash_table_foreach rest func str' w')"

text \<open>
  \<open>write_nm_conf_finish(rootdir)\<close>, nm.c lines 229 to 251. The global table \<open>netdefs\<close>
  (from id to definition, built by the loader) is the first argument, its entries in the
  order of the iteration.
\<close>

definition write_nm_conf_finish ::
  "(string \<times> net_definition) list \<Rightarrow> string option \<Rightarrow> world \<Rightarrow> (error + unit) \<times> world" where
  "write_nm_conf_finish netdefs rootdir w =
     (if length netdefs = 0 then (Inr (), w)
      else
        let s = ''[keyfile]\<newline># devices managed by networkd\<newline>unmanaged-devices+='';
            len = length s
        in (case g_hash_table_foreach netdefs nd_append_non_nm_ids s w of
              (Inl e, w1) \<Rightarrow> (Inl e, w1)
            | (Inr s1, w1) \<Rightarrow>
                (case (if len < length s1
                       then g_string_free_to_file s1 rootdir ''run/NetworkManager/conf.d/ubuntu-network.conf'' None w1
                       else (Inr (), w1)) of
                   (Inl e, w2) \<Rightarrow> (Inl e, w2)
                 | (Inr u, w2) \<Rightarrow>
                     (case udev_rules w2 of
                        Some rules \<Rightarrow> g_string_free_to_file rules rootdir ''run/udev/rules.d/90-ubuntu-network.rules'' None w2
                      | None \<Rightarrow> (Inr (), w2)))))"

section \<open>Example inputs\<close>

text \<open>
  A fresh process (file-creation mask \<open>022\<close>, no rule buffer, every write succeeds) and
  the definitions of the spec's scenarios, from which the witnesses below are built.
\<close>

definition w0 :: world where
  "w0 = \<lparr>artifacts = [], stderr = [], umask = 18, udev_rules = None, write_fails = (\<lambda>r p. False)\<rparr>"

definition no_match :: netdef_match where
  "no_match = \<lparr>mac = None, driver = None, original_name = None\<rparr>"

definition full_match :: netdef_match where
  "full_match = \<lparr>mac = Some ''00:11:22:33:44:55'', driver = Some ''e1000'', original_name = Some ''eth*''\<rparr>"

definition br0 :: net_definition where
  "br0 = \<lparr>type = ND_BRIDGE, backend = BACKEND_NETWORKD, id_nd = ''br0'', set_name = None,
     has_match = False, match = no_match, bridge = None, dhcp4 = False, wake_on_lan = False,
     access_points = None\<rparr>"

definition eth0 :: net_definition where
  "eth0 = \<lparr>type = ND_ETHERNET, backend = BACKEND_NETWORKD, id_nd = ''eth0'', set_name = None,
     has_match = False, match = no_match, bridge = None, dhcp4 = True, wake_on_lan = False,
     access_points = None\<rparr>"

definition home_ap :: wifi_access_point where
  "home_ap = \<lparr>ssid = ''Home'', mode = WIFI_MODE_AP, password = Some ''secret123''\<rparr>"

definition wlan0 :: net_definition where
  "wlan0 = \<lparr>type = ND_WIFI, backend = BACKEND_NM, id_nd = ''wlan0'', set_name = None,
     has_match = False, match = no_match, bridge = None, dhcp4 = False, wake_on_lan = False,
     access_points = Some [(''Home'', home_ap)]\<rparr>"

definition guest_ap :: wifi_access_point where
  "guest_ap = \<lparr>ssid = ''Guest Net/5'', mode = WIFI_MODE_INFRASTRUCTURE, password = None\<rparr>"

definition wlan1 :: net_definition where
  "wlan1 = wlan0\<lparr>id_nd := ''wlan1'', access_points := Some [(''Home'', home_ap), (''Guest Net/5'', guest_ap)]\<rparr>"

definition eth1 :: net_definition where
  "eth1 = eth0\<lparr>id_nd := ''eth1'', has_match := True, match := no_match\<lparr>driver := Some ''e1000''\<rparr>\<rparr>"



definition eth2 :: net_definition where
  "eth2 = eth0\<lparr>id_nd := ''eth2''\<rparr>"

definition eth3 :: net_definition where
  "eth3 = eth1\<lparr>id_nd := ''eth3''\<rparr>"

section \<open>Auxiliary definitions for the proofs\<close>

text \<open>
  The inverse of the percent-escape: \<open>%XY\<close> is read back as the byte with the
  hexadecimal digits \<open>X\<close> and \<open>Y\<close>, every other byte stands for itself.
\<close>

definition hex_val :: "char \<Rightarrow> nat" where
  "hex_val c = (if (of_char c :: nat) \<le> 0x39 then (of_char c :: nat) - 0x30 else (of_char c :: nat) - 0x37)"

fun uri_unescape :: "string \<Rightarrow> string" where
  "uri_unescape (c # h # l # cs) =
     (if c = CHR ''%'' then char_of (hex_val h * 16 + hex_val l) # uri_unescape cs
      else c # uri_unescape (h # l # cs))"
| "uri_unescape cs = cs"

text \<open>
  What \<open>write_nm_conf_access_point\<close> writes for the access point \<open>a\<close> of a wifi
  definition: the place, the mask, and the wifi sections at the end of the content.
\<close>

definition ap_artifact :: "net_definition \<Rightarrow> string option \<Rightarrow> wifi_access_point \<Rightarrow> artifact \<Rightarrow> bool" where
  "ap_artifact def rootdir a art \<longleftrightarrow>
     (\<exists>pre. art =
        \<lparr>art_root = rootdir,
         art_path = ''run/NetworkManager/system-connections/ubuntu-network-'' @ id_nd def
                      @ ''-'' @ g_uri_escape_string (ssid a),
         art_content = pre
           @ (if mode a = WIFI_MODE_AP then ''\<newline>[ipv4]\<newline>method=shared\<newline>'' else [])
           @ ''\<newline>[wifi]\<newline>ssid='' @ ssid a @ ''\<newline>mode='' @ wifi_mode_str (mode a) @ ''\<newline>''
           @ (case password a of
                Some pw \<Rightarrow> ''\<newline>[wifi-security]\<newline>key-mgmt=wpa-psk\<newline>psk='' @ pw @ ''\<newline>''
              | None \<Rightarrow> []),
         art_umask = 63\<rparr>)"

text \<open>
  The standing invariant of the surrounding system that the encoder's last branch asserts
  (nm.c lines 34 to 44, spec section 4.1): no wifi definition of another backend is
  without any match. The lists that the iteration of the finisher collects, in the order
  of the iteration: the specifiers of the definitions of other backends without a driver
  match, and the drivers of those with one. \<open>rules_after\<close> is the rule buffer after
  the rules for a list of drivers were appended.
\<close>

definition standing_invariant :: "(string \<times> net_definition) list \<Rightarrow> bool" where
  "standing_invariant netdefs \<longleftrightarrow>
     (\<forall>(key, nd)\<in>set netdefs.
        backend nd \<noteq> BACKEND_NM \<and> type nd = ND_WIFI \<longrightarrow>
          mac (match nd) \<noteq> None \<or> driver (match nd) \<noteq> None
          \<or> original_name (match nd) \<noteq> None \<or> set_name nd \<noteq> None)"

definition excluded_specifiers :: "(string \<times> net_definition) list \<Rightarrow> string list" where
  "excluded_specifiers netdefs =
     concat (map (\<lambda>(key, nd).
               if backend nd \<noteq> BACKEND_NM \<and> driver (match nd) = None
               then (case g_string_append_netdef_match [] nd of Inr s \<Rightarrow> [s] | Inl e \<Rightarrow> [])
               else []) netdefs)"

definition excluded_drivers :: "(string \<times> net_definition) list \<Rightarrow> string list" where
  "excluded_drivers netdefs =
     concat (map (\<lambda>(key, nd).
               if backend nd \<noteq> BACKEND_NM
               then (case driver (match nd) of Some drv \<Rightarrow> [drv] | None \<Rightarrow> [])
               else []) netdefs)"

definition rules_after :: "string list \<Rightarrow> string option \<Rightarrow> string option" where
  "rules_after drvs r =
     (if drvs = [] then r
      else Some ((case r of None \<Rightarrow> [] | Some x \<Rightarrow> x) @ concat (map udev_rule drvs)))"

text \<open>
  The spec's words for the unmanaged-devices directive (section 4.4), "a comma-joined
  sequence": the entries with a comma between each two of them. It is what the output of
  the finisher is compared with, not part of the embedding.
\<close>

fun comma_joined :: "string list \<Rightarrow> string" where
  "comma_joined [] = []"
| "comma_joined [x] = x"
| "comma_joined (x # y # rest) = x @ '','' @ comma_joined (y # rest)"

section \<open>Properties\<close>

text \<open>
  C1. For every well-formed definition (one that satisfies the encoder's assertion:
  \<open>match.driver\<close> is unset or \<open>set_name\<close> is set) whose \<open>match.mac\<close> is set, the
  encoder appends exactly \<open>mac:\<close> followed by the MAC value, whatever
  \<open>match.original_name\<close>, \<open>set_name\<close> and the type are; on an empty buffer the result
  is exactly that string.
\<close>

theorem encoder_mac_precedence:
  assumes "mac (match def) = Some m"
    and "driver (match def) = None \<or> set_name def \<noteq> None"
  shows "g_string_append_netdef_match s def = Inr (s @ ''mac:'' @ m)
       \<and> g_string_append_netdef_match [] def = Inr (''mac:'' @ m)"
  using assms by (simp add: g_string_append_netdef_match_def)

theorem encoder_mac_precedence_witness:
  "mac (match (br0\<lparr>match := full_match, set_name := Some ''lan0''\<rparr>)) = Some ''00:11:22:33:44:55''
   \<and> set_name (br0\<lparr>match := full_match, set_name := Some ''lan0''\<rparr>) \<noteq> None
   \<and> original_name (match (br0\<lparr>match := full_match, set_name := Some ''lan0''\<rparr>)) \<noteq> None
   \<and> ND_VIRTUAL \<le> netdef_type_rank (type (br0\<lparr>match := full_match, set_name := Some ''lan0''\<rparr>))
   \<and> g_string_append_netdef_match [] (br0\<lparr>match := full_match, set_name := Some ''lan0''\<rparr>)
       = Inr ''mac:00:11:22:33:44:55''"
proof -
  let ?d = "br0\<lparr>match := full_match, set_name := Some ''lan0''\<rparr>"
  have h1: "mac (match ?d) = Some ''00:11:22:33:44:55''" by (simp add: full_match_def)
  have h2: "driver (match ?d) = None \<or> set_name ?d \<noteq> None" by simp
  show ?thesis
    using encoder_mac_precedence [OF h1 h2, of "[]"]
    by (simp add: full_match_def br0_def ND_VIRTUAL_def)
qed

text \<open>
  C2. The claim as stated fails: a virtual definition with a MAC match is encoded as
  \<open>mac:<value>\<close> (the MAC test comes first), and one with a driver match and no
  \<open>set_name\<close> fails the encoder's assertion.
\<close>

theorem encoder_virtual_counterexample:
  "ND_VIRTUAL \<le> netdef_type_rank (type (br0\<lparr>match := no_match\<lparr>mac := Some ''00:11:22:33:44:55''\<rparr>\<rparr>))
   \<and> g_string_append_netdef_match [] (br0\<lparr>match := no_match\<lparr>mac := Some ''00:11:22:33:44:55''\<rparr>\<rparr>)
       = Inr ''mac:00:11:22:33:44:55''
   \<and> g_string_append_netdef_match [] (br0\<lparr>match := no_match\<lparr>mac := Some ''00:11:22:33:44:55''\<rparr>\<rparr>)
       \<noteq> Inr (''interface-name:'' @ id_nd (br0\<lparr>match := no_match\<lparr>mac := Some ''00:11:22:33:44:55''\<rparr>\<rparr>))
   \<and> ND_VIRTUAL \<le> netdef_type_rank (type (br0\<lparr>match := no_match\<lparr>driver := Some ''bridge''\<rparr>\<rparr>))
   \<and> g_string_append_netdef_match [] (br0\<lparr>match := no_match\<lparr>driver := Some ''bridge''\<rparr>\<rparr>) = Inl Abort"
  by (simp add: g_string_append_netdef_match_def br0_def no_match_def ND_VIRTUAL_def)

text \<open>
  C2, amended. For every virtual-type definition without a MAC match that satisfies the
  encoder's assertion (\<open>match.driver\<close> unset or \<open>set_name\<close> set), the encoder appends
  exactly \<open>interface-name:<id>\<close>, whatever \<open>match.original_name\<close>, \<open>match.driver\<close> and
  \<open>set_name\<close> are.
\<close>

theorem encoder_virtual_without_mac:
  assumes "ND_VIRTUAL \<le> netdef_type_rank (type def)"
    and "mac (match def) = None"
    and "driver (match def) = None \<or> set_name def \<noteq> None"
  shows "g_string_append_netdef_match s def = Inr (s @ ''interface-name:'' @ id_nd def)
       \<and> g_string_append_netdef_match [] def = Inr (''interface-name:'' @ id_nd def)"
  using assms by (simp add: g_string_append_netdef_match_def)

theorem encoder_virtual_without_mac_witness:
  "ND_VIRTUAL \<le> netdef_type_rank (type (br0\<lparr>match := full_match\<lparr>mac := None\<rparr>, set_name := Some ''lan0''\<rparr>))
   \<and> original_name (match (br0\<lparr>match := full_match\<lparr>mac := None\<rparr>, set_name := Some ''lan0''\<rparr>)) = Some ''eth*''
   \<and> driver (match (br0\<lparr>match := full_match\<lparr>mac := None\<rparr>, set_name := Some ''lan0''\<rparr>)) = Some ''e1000''
   \<and> g_string_append_netdef_match [] (br0\<lparr>match := full_match\<lparr>mac := None\<rparr>, set_name := Some ''lan0''\<rparr>)
       = Inr ''interface-name:br0''"
proof -
  let ?d = "br0\<lparr>match := full_match\<lparr>mac := None\<rparr>, set_name := Some ''lan0''\<rparr>"
  have h1: "ND_VIRTUAL \<le> netdef_type_rank (type ?d)" by (simp add: br0_def ND_VIRTUAL_def)
  have h2: "mac (match ?d) = None" by simp
  have h3: "driver (match ?d) = None \<or> set_name ?d \<noteq> None" by simp
  show ?thesis
    using encoder_virtual_without_mac [OF h1 h2 h3, of "[]"] h1
    by (simp add: full_match_def br0_def)
qed

text \<open>
  C3. For every definition owned by this backend with \<open>match.driver\<close> set and
  \<open>set_name\<close> unset, \<open>write_nm_conf\<close> ends the process with exit status 1 after one
  diagnostic line on the error stream that starts with the definition's id, and the list
  of written artifacts is what it was before the call.
\<close>

theorem driver_match_is_fatal:
  assumes "backend def = BACKEND_NM"
    and "driver (match def) = Some drv"
    and "set_name def = None"
  shows "write_nm_conf def rootdir w =
           (Inl (Exit 1), w\<lparr>stderr := stderr w @ ''ERROR: '' @ id_nd def @
              '': NetworkManager definitions do not support matching by driver\<newline>''\<rparr>)
       \<and> artifacts (snd (write_nm_conf def rootdir w)) = artifacts w"
  using assms by (simp add: write_nm_conf_def)

theorem driver_match_is_fatal_witness:
  "backend (wlan0\<lparr>match := no_match\<lparr>driver := Some ''iwlwifi''\<rparr>\<rparr>) = BACKEND_NM
   \<and> driver (match (wlan0\<lparr>match := no_match\<lparr>driver := Some ''iwlwifi''\<rparr>\<rparr>)) = Some ''iwlwifi''
   \<and> set_name (wlan0\<lparr>match := no_match\<lparr>driver := Some ''iwlwifi''\<rparr>\<rparr>) = None
   \<and> fst (write_nm_conf (wlan0\<lparr>match := no_match\<lparr>driver := Some ''iwlwifi''\<rparr>\<rparr>) None w0) = Inl (Exit 1)
   \<and> stderr (snd (write_nm_conf (wlan0\<lparr>match := no_match\<lparr>driver := Some ''iwlwifi''\<rparr>\<rparr>) None w0))
       = ''ERROR: wlan0: NetworkManager definitions do not support matching by driver\<newline>''
   \<and> artifacts (snd (write_nm_conf (wlan0\<lparr>match := no_match\<lparr>driver := Some ''iwlwifi''\<rparr>\<rparr>) None w0)) = []"
proof -
  let ?d = "wlan0\<lparr>match := no_match\<lparr>driver := Some ''iwlwifi''\<rparr>\<rparr>"
  have h1: "backend ?d = BACKEND_NM" by (simp add: wlan0_def)
  have h2: "driver (match ?d) = Some ''iwlwifi''" by simp
  have h3: "set_name ?d = None" by (simp add: wlan0_def)
  show ?thesis
    using driver_match_is_fatal [OF h1 h2 h3, of None w0] h1 h3
    by (simp add: wlan0_def w0_def)
qed

subsection \<open>Name globbing\<close>

lemma strpbrk_None_iff: "strpbrk s accept = None \<longleftrightarrow> (\<forall>c\<in>set s. c \<notin> set accept)"
  by (induction s) auto

lemma access_point_glob_exit:
  assumes "if type def = ND_WIFI then ap \<noteq> None else ap = None"
    and "type def \<noteq> ND_BRIDGE"
    and "set_name def = None" and "has_match def"
    and "original_name (match def) = Some n"
    and "strpbrk n ''*[]?'' \<noteq> None"
  shows "write_nm_conf_access_point def rootdir ap w =
           (Inl (Exit 1), w\<lparr>stderr := stderr w @ ''ERROR: '' @ id_nd def @
              '': NetworkManager definitions do not support name globbing\<newline>''\<rparr>)"
proof -
  have phys: "netdef_type_rank (type def) < ND_VIRTUAL"
    using assms(2) by (cases "type def") (simp_all add: ND_VIRTUAL_def)
  have "append_interface_name def s w =
          Inl (Exit 1, w\<lparr>stderr := stderr w @ ''ERROR: '' @ id_nd def @
              '': NetworkManager definitions do not support name globbing\<newline>''\<rparr>)" for s
    using phys assms(3-6) by (simp add: append_interface_name_def)
  then show ?thesis
    using assms(1) by (simp add: write_nm_conf_access_point_def Let_def split: if_splits)
qed

text \<open>
  C4. The claim as stated fails in two ways. A wifi definition whose access-point table
  is empty never reaches the globbing test, which sits in the per-access-point function:
  rendering returns normally and writes nothing. A definition that also has
  \<open>match.driver\<close> set is stopped earlier, with the driver diagnostic.
\<close>

theorem glob_name_counterexample:
  "backend (wlan0\<lparr>has_match := True, match := no_match\<lparr>original_name := Some ''wl*''\<rparr>, access_points := Some []\<rparr>) = BACKEND_NM
   \<and> type (wlan0\<lparr>has_match := True, match := no_match\<lparr>original_name := Some ''wl*''\<rparr>, access_points := Some []\<rparr>) = ND_WIFI
   \<and> set_name (wlan0\<lparr>has_match := True, match := no_match\<lparr>original_name := Some ''wl*''\<rparr>, access_points := Some []\<rparr>) = None
   \<and> write_nm_conf (wlan0\<lparr>has_match := True, match := no_match\<lparr>original_name := Some ''wl*''\<rparr>, access_points := Some []\<rparr>) None w0
       = (Inr (), w0)
   \<and> backend (eth0\<lparr>backend := BACKEND_NM, has_match := True, match := full_match\<lparr>mac := None\<rparr>\<rparr>) = BACKEND_NM
   \<and> type (eth0\<lparr>backend := BACKEND_NM, has_match := True, match := full_match\<lparr>mac := None\<rparr>\<rparr>) = ND_ETHERNET
   \<and> set_name (eth0\<lparr>backend := BACKEND_NM, has_match := True, match := full_match\<lparr>mac := None\<rparr>\<rparr>) = None
   \<and> original_name (match (eth0\<lparr>backend := BACKEND_NM, has_match := True, match := full_match\<lparr>mac := None\<rparr>\<rparr>)) = Some ''eth*''
   \<and> stderr (snd (write_nm_conf (eth0\<lparr>backend := BACKEND_NM, has_match := True, match := full_match\<lparr>mac := None\<rparr>\<rparr>) None w0))
       = ''ERROR: eth0: NetworkManager definitions do not support matching by driver\<newline>''"
  by (simp add: write_nm_conf_def wlan0_def eth0_def full_match_def no_match_def w0_def)

text \<open>
  C4, amended. For every physical definition owned by this backend with no \<open>set_name\<close>
  and no \<open>match.driver\<close>, with a match stanza (\<open>has_match\<close>) whose
  \<open>match.original_name\<close> contains one of \<open>* [ ] ?\<close>, that is an ethernet definition
  or a wifi definition with at least one access point: rendering ends the process with
  exit status 1 after the diagnostic \<open>ERROR: <id>: NetworkManager definitions do not
  support name globbing\<close>, and no artifact is written.
\<close>

theorem glob_name_is_fatal:
  assumes "backend def = BACKEND_NM"
    and "set_name def = None"
    and "driver (match def) = None"
    and "has_match def"
    and "original_name (match def) = Some n"
    and "\<exists>c\<in>set n. c \<in> {CHR ''*'', CHR ''['', CHR '']'', CHR ''?''}"
    and "(type def = ND_ETHERNET \<and> access_points def = None)
       \<or> (type def = ND_WIFI \<and> (\<exists>kv rest. access_points def = Some (kv # rest)))"
  shows "write_nm_conf def rootdir w =
           (Inl (Exit 1), w\<lparr>stderr := stderr w @ ''ERROR: '' @ id_nd def @
              '': NetworkManager definitions do not support name globbing\<newline>''\<rparr>)
       \<and> artifacts (snd (write_nm_conf def rootdir w)) = artifacts w"
proof -
  have glob: "strpbrk n ''*[]?'' \<noteq> None"
    using assms(6) by (auto simp: strpbrk_None_iff)
  have run: "write_nm_conf def rootdir w =
           (Inl (Exit 1), w\<lparr>stderr := stderr w @ ''ERROR: '' @ id_nd def @
              '': NetworkManager definitions do not support name globbing\<newline>''\<rparr>)"
    using assms(7)
  proof
    assume eth: "type def = ND_ETHERNET \<and> access_points def = None"
    have "write_nm_conf_access_point def rootdir None w =
           (Inl (Exit 1), w\<lparr>stderr := stderr w @ ''ERROR: '' @ id_nd def @
              '': NetworkManager definitions do not support name globbing\<newline>''\<rparr>)"
      using eth assms(2,4,5) glob by (intro access_point_glob_exit) simp_all
    then show ?thesis
      using eth assms(1,2,3) by (simp add: write_nm_conf_def)
  next
    assume wifi: "type def = ND_WIFI \<and> (\<exists>kv rest. access_points def = Some (kv # rest))"
    then obtain k a rest where aps: "access_points def = Some ((k, a) # rest)"
      by (metis surj_pair)
    have "write_nm_conf_access_point def rootdir (Some a) w =
           (Inl (Exit 1), w\<lparr>stderr := stderr w @ ''ERROR: '' @ id_nd def @
              '': NetworkManager definitions do not support name globbing\<newline>''\<rparr>)"
      using wifi assms(2,4,5) glob by (intro access_point_glob_exit) simp_all
    then show ?thesis
      using wifi aps assms(1,2,3) by (simp add: write_nm_conf_def)
  qed
  then show ?thesis by simp
qed

theorem glob_name_is_fatal_witness:
  "backend (eth0\<lparr>backend := BACKEND_NM, has_match := True, match := no_match\<lparr>original_name := Some ''eth*''\<rparr>\<rparr>) = BACKEND_NM
   \<and> original_name (match (eth0\<lparr>backend := BACKEND_NM, has_match := True, match := no_match\<lparr>original_name := Some ''eth*''\<rparr>\<rparr>)) = Some ''eth*''
   \<and> fst (write_nm_conf (eth0\<lparr>backend := BACKEND_NM, has_match := True, match := no_match\<lparr>original_name := Some ''eth*''\<rparr>\<rparr>) None w0) = Inl (Exit 1)
   \<and> stderr (snd (write_nm_conf (eth0\<lparr>backend := BACKEND_NM, has_match := True, match := no_match\<lparr>original_name := Some ''eth*''\<rparr>\<rparr>) None w0))
       = ''ERROR: eth0: NetworkManager definitions do not support name globbing\<newline>''
   \<and> artifacts (snd (write_nm_conf (eth0\<lparr>backend := BACKEND_NM, has_match := True, match := no_match\<lparr>original_name := Some ''eth*''\<rparr>\<rparr>) None w0)) = []
   \<and> fst (write_nm_conf (wlan0\<lparr>has_match := True, match := no_match\<lparr>original_name := Some ''wl?n0''\<rparr>\<rparr>) None w0) = Inl (Exit 1)
   \<and> artifacts (snd (write_nm_conf (wlan0\<lparr>has_match := True, match := no_match\<lparr>original_name := Some ''wl?n0''\<rparr>\<rparr>) None w0)) = []"
proof -
  let ?d = "eth0\<lparr>backend := BACKEND_NM, has_match := True, match := no_match\<lparr>original_name := Some ''eth*''\<rparr>\<rparr>"
  let ?e = "wlan0\<lparr>has_match := True, match := no_match\<lparr>original_name := Some ''wl?n0''\<rparr>\<rparr>"
  have d1: "backend ?d = BACKEND_NM" by simp
  have d2: "set_name ?d = None" by (simp add: eth0_def)
  have d3: "driver (match ?d) = None" by (simp add: no_match_def)
  have d4: "has_match ?d" by simp
  have d5: "original_name (match ?d) = Some ''eth*''" by simp
  have d6: "\<exists>c\<in>set ''eth*''. c \<in> {CHR ''*'', CHR ''['', CHR '']'', CHR ''?''}" by simp
  have d7: "(type ?d = ND_ETHERNET \<and> access_points ?d = None)
       \<or> (type ?d = ND_WIFI \<and> (\<exists>kv rest. access_points ?d = Some (kv # rest)))"
    by (simp add: eth0_def)
  have e1: "backend ?e = BACKEND_NM" by (simp add: wlan0_def)
  have e2: "set_name ?e = None" by (simp add: wlan0_def)
  have e3: "driver (match ?e) = None" by (simp add: no_match_def)
  have e4: "has_match ?e" by simp
  have e5: "original_name (match ?e) = Some ''wl?n0''" by simp
  have e6: "\<exists>c\<in>set ''wl?n0''. c \<in> {CHR ''*'', CHR ''['', CHR '']'', CHR ''?''}" by simp
  have e7: "(type ?e = ND_ETHERNET \<and> access_points ?e = None)
       \<or> (type ?e = ND_WIFI \<and> (\<exists>kv rest. access_points ?e = Some (kv # rest)))"
    by (simp add: wlan0_def)
  show ?thesis
    using glob_name_is_fatal [OF d1 d2 d3 d4 d5 d6 d7, of None w0]
          glob_name_is_fatal [OF e1 e2 e3 e4 e5 e6 e7, of None w0]
    by (simp add: eth0_def wlan0_def w0_def)
qed

subsection \<open>Wifi definitions without access points\<close>

text \<open>
  C10. The claim as stated fails for a definition with \<open>match.driver\<close> set and
  \<open>set_name\<close> unset: the driver test comes before the loop and ends the process.
\<close>

theorem empty_access_points_counterexample:
  "backend (wlan0\<lparr>match := no_match\<lparr>driver := Some ''iwlwifi''\<rparr>, access_points := Some []\<rparr>) = BACKEND_NM
   \<and> type (wlan0\<lparr>match := no_match\<lparr>driver := Some ''iwlwifi''\<rparr>, access_points := Some []\<rparr>) = ND_WIFI
   \<and> access_points (wlan0\<lparr>match := no_match\<lparr>driver := Some ''iwlwifi''\<rparr>, access_points := Some []\<rparr>) = Some []
   \<and> fst (write_nm_conf (wlan0\<lparr>match := no_match\<lparr>driver := Some ''iwlwifi''\<rparr>, access_points := Some []\<rparr>) None w0)
       = Inl (Exit 1)"
  by (simp add: write_nm_conf_def wlan0_def no_match_def)

text \<open>
  C10, amended. For every wifi definition owned by this backend that passes the driver
  test (\<open>match.driver\<close> unset or \<open>set_name\<close> set) and whose access-point table is
  present but empty, rendering returns normally and leaves the world as it was: no
  artifact, no diagnostic, no assertion failure.
\<close>

theorem empty_access_points_no_artifact:
  assumes "backend def = BACKEND_NM"
    and "type def = ND_WIFI"
    and "access_points def = Some []"
    and "driver (match def) = None \<or> set_name def \<noteq> None"
  shows "write_nm_conf def rootdir w = (Inr (), w)"
  using assms by (auto simp: write_nm_conf_def)

theorem empty_access_points_no_artifact_witness:
  "backend (wlan0\<lparr>access_points := Some []\<rparr>) = BACKEND_NM
   \<and> type (wlan0\<lparr>access_points := Some []\<rparr>) = ND_WIFI
   \<and> access_points (wlan0\<lparr>access_points := Some []\<rparr>) = Some []
   \<and> fst (write_nm_conf (wlan0\<lparr>access_points := Some []\<rparr>) None w0) = Inr ()
   \<and> artifacts (snd (write_nm_conf (wlan0\<lparr>access_points := Some []\<rparr>) None w0)) = []
   \<and> stderr (snd (write_nm_conf (wlan0\<lparr>access_points := Some []\<rparr>) None w0)) = []"
proof -
  let ?d = "wlan0\<lparr>access_points := Some []\<rparr>"
  have h1: "backend ?d = BACKEND_NM" by (simp add: wlan0_def)
  have h2: "type ?d = ND_WIFI" by (simp add: wlan0_def)
  have h3: "access_points ?d = Some []" by simp
  have h4: "driver (match ?d) = None \<or> set_name ?d \<noteq> None" by (simp add: wlan0_def no_match_def)
  show ?thesis
    using empty_access_points_no_artifact [OF h1 h2 h3 h4, of None w0] h1 h2
    by (simp add: w0_def)
qed

subsection \<open>The percent-escape is injective\<close>

lemma hex_val_hex: "v < 16 \<Longrightarrow> hex_val (hex ! v) = v"
proof -
  assume "v < 16"
  then have "v = 0 \<or> v = 1 \<or> v = 2 \<or> v = 3 \<or> v = 4 \<or> v = 5 \<or> v = 6 \<or> v = 7
      \<or> v = 8 \<or> v = 9 \<or> v = 10 \<or> v = 11 \<or> v = 12 \<or> v = 13 \<or> v = 14 \<or> v = 15"
    by arith
  then show ?thesis
    by (elim disjE) (simp_all add: hex_def hex_val_def)
qed

lemma uri_unescape_plain: "c \<noteq> CHR ''%'' \<Longrightarrow> uri_unescape (c # xs) = c # uri_unescape xs"
  by (cases xs rule: uri_unescape.cases) auto

lemma uri_unescape_plain_run:
  "\<forall>b\<in>set bs. b \<noteq> CHR ''%'' \<Longrightarrow> uri_unescape (bs @ rest) = bs @ uri_unescape rest"
  by (induction bs) (simp_all add: uri_unescape_plain)

lemma uri_unescape_triple:
  "uri_unescape (CHR ''%'' # hex ! ((of_char c :: nat) div 16) # hex ! ((of_char c :: nat) mod 16) # rest)
     = c # uri_unescape rest"
proof -
  have lt: "(of_char c :: nat) div 16 < 16" 
  proof -
    have "(of_char c :: nat) < 256" by simp
    then show ?thesis by arith
  qed
  have "hex_val (hex ! ((of_char c :: nat) div 16)) * 16 + hex_val (hex ! ((of_char c :: nat) mod 16))
          = (of_char c :: nat)"
    using lt by (simp add: hex_val_hex)
  then show ?thesis by simp
qed

lemma utf8_cont_bytes:
  "utf8_cont wc n cs = Some v \<Longrightarrow> n \<le> length cs \<and> (\<forall>b\<in>set (take n cs). is_cont b)"
  by (induction wc n cs rule: utf8_cont.induct) (auto split: if_splits)

lemma utf8_checked_bytes:
  "utf8_checked len wc0 m cs = k \<Longrightarrow> 0 < k \<Longrightarrow> k = len \<and> (\<forall>b\<in>set (take (len - 1) cs). is_cont b)"
  by (auto simp: utf8_checked_def split: option.splits if_splits dest: utf8_cont_bytes)

lemma g_utf8_char_len_bytes:
  assumes "0 < g_utf8_char_len s"
  shows "\<forall>b\<in>set (take (g_utf8_char_len s) s). 0x80 \<le> (of_char b :: nat)"
proof (cases s)
  case Nil
  with assms show ?thesis by (simp add: g_utf8_char_len_def)
next
  case (Cons c cs)
  let ?b = "of_char c :: nat"
  from assms Cons have lead: "0xC0 \<le> ?b"
    by (auto simp: g_utf8_char_len_def Let_def split: if_splits)
  from assms Cons have "utf8_checked 2 (?b mod 32) 0x80 cs = g_utf8_char_len s
      \<or> utf8_checked 3 (?b mod 16) 0x800 cs = g_utf8_char_len s
      \<or> utf8_checked 4 (?b mod 8) 0x10000 cs = g_utf8_char_len s"
    by (auto simp: g_utf8_char_len_def Let_def split: if_splits)
  then obtain len wc0 m where
    k: "utf8_checked len wc0 m cs = g_utf8_char_len s" and len: "0 < len"
    by (metis zero_less_numeral)
  from utf8_checked_bytes [OF k assms]
  have eq: "g_utf8_char_len s = len" and conts: "\<forall>b\<in>set (take (len - 1) cs). is_cont b" by simp_all
  have "take len (c # cs) = c # take (len - 1) cs"
    using len by (cases len) simp_all
  with lead conts eq Cons show ?thesis
    by (auto simp: is_cont_def)
qed

lemma append_uri_escaped_acc_all:
  fixes x :: string
  shows "\<forall>acc. g_string_append_uri_escaped acc s = acc @ g_string_append_uri_escaped [] s"
proof (induction x s rule: g_string_append_uri_escaped.induct)
  case (1 string)
  show ?case by simp
next
  case (2 string c cs)
  let ?n = "g_utf8_char_len (c # cs)"
  let ?b = "of_char c :: nat"
  consider (utf8) "0x80 \<le> ?b \<and> 0 < ?n"
    | (plain) "\<not> (0x80 \<le> ?b \<and> 0 < ?n)" "is_valid c"
    | (esc) "\<not> (0x80 \<le> ?b \<and> 0 < ?n)" "\<not> is_valid c" by blast
  then show ?case
  proof cases
    case utf8
    note ih = "2.IH"(1) [OF utf8, rule_format]
    show ?thesis
    proof
      fix acc
      have "g_string_append_uri_escaped acc (c # cs)
              = (acc @ take ?n (c # cs)) @ g_string_append_uri_escaped [] (drop ?n (c # cs))"
        using utf8 ih [of "acc @ take ?n (c # cs)"] by simp
      moreover have "g_string_append_uri_escaped [] (c # cs)
              = take ?n (c # cs) @ g_string_append_uri_escaped [] (drop ?n (c # cs))"
        using utf8 ih [of "take ?n (c # cs)"] by simp
      ultimately show "g_string_append_uri_escaped acc (c # cs)
              = acc @ g_string_append_uri_escaped [] (c # cs)" by simp
    qed
  next
    case plain
    note ih = "2.IH"(2) [OF plain, rule_format]
    show ?thesis
    proof
      fix acc
      show "g_string_append_uri_escaped acc (c # cs)
              = acc @ g_string_append_uri_escaped [] (c # cs)"
        using plain ih [of "acc @ [c]"] ih [of "[c]"] by simp
    qed
  next
    case esc
    note ih = "2.IH"(3) [OF esc, rule_format]
    let ?t = "[CHR ''%'', hex ! (?b div 16), hex ! (?b mod 16)]"
    show ?thesis
    proof
      fix acc
      show "g_string_append_uri_escaped acc (c # cs)
              = acc @ g_string_append_uri_escaped [] (c # cs)"
        using esc ih [of "acc @ ?t"] ih [of ?t] by simp
    qed
  qed
qed

lemma g_uri_escape_string_Nil: "g_uri_escape_string [] = []"
  by (simp add: g_uri_escape_string_def)

lemma g_uri_escape_string_Cons:
  "g_uri_escape_string (c # cs) =
     (if 0x80 \<le> (of_char c :: nat) \<and> 0 < g_utf8_char_len (c # cs)
      then take (g_utf8_char_len (c # cs)) (c # cs)
             @ g_uri_escape_string (drop (g_utf8_char_len (c # cs)) (c # cs))
      else if is_valid c then c # g_uri_escape_string cs
      else CHR ''%'' # hex ! ((of_char c :: nat) div 16) # hex ! ((of_char c :: nat) mod 16)
             # g_uri_escape_string cs)"
  unfolding g_uri_escape_string_def
  using append_uri_escaped_acc_all [of "drop (g_utf8_char_len (c # cs)) (c # cs)", rule_format,
          of "take (g_utf8_char_len (c # cs)) (c # cs)"]
        append_uri_escaped_acc_all [of cs, rule_format, of "[c]"]
        append_uri_escaped_acc_all [of cs, rule_format,
          of "[CHR ''%'', hex ! ((of_char c :: nat) div 16), hex ! ((of_char c :: nat) mod 16)]"]
  by simp

lemma is_valid_not_percent: "is_valid c \<Longrightarrow> c \<noteq> CHR ''%''"
  by (auto simp: is_valid_def g_ascii_isalnum_def)

lemma uri_unescape_escape: "uri_unescape (g_uri_escape_string s) = s"
proof (induction s rule: length_induct)
  case (1 s)
  show ?case
  proof (cases s)
    case Nil
    then show ?thesis by (simp add: g_uri_escape_string_Nil)
  next
    case (Cons c cs)
    let ?n = "g_utf8_char_len (c # cs)"
    let ?b = "of_char c :: nat"
    consider (utf8) "0x80 \<le> ?b \<and> 0 < ?n"
      | (plain) "\<not> (0x80 \<le> ?b \<and> 0 < ?n)" "is_valid c"
      | (esc) "\<not> (0x80 \<le> ?b \<and> 0 < ?n)" "\<not> is_valid c" by blast
    then show ?thesis
    proof cases
      case utf8
      have bytes: "\<forall>b\<in>set (take ?n (c # cs)). b \<noteq> CHR ''%''"
        using g_utf8_char_len_bytes [of "c # cs"] utf8 by fastforce
      have shorter: "length (drop ?n (c # cs)) < length s"
        using utf8 Cons by simp
      have "uri_unescape (g_uri_escape_string (c # cs))
              = take ?n (c # cs) @ uri_unescape (g_uri_escape_string (drop ?n (c # cs)))"
      proof -
        have "g_uri_escape_string (c # cs)
                = take ?n (c # cs) @ g_uri_escape_string (drop ?n (c # cs))"
          using utf8 by (subst g_uri_escape_string_Cons) simp
        then show ?thesis
          using bytes by (simp only: uri_unescape_plain_run)
      qed
      also have "\<dots> = take ?n (c # cs) @ drop ?n (c # cs)"
        using 1 shorter by simp
      finally show ?thesis using Cons by simp
    next
      case plain
      have "uri_unescape (g_uri_escape_string cs) = cs"
        using 1 Cons by simp
      then show ?thesis
        using plain Cons is_valid_not_percent [of c]
        by (simp add: g_uri_escape_string_Cons uri_unescape_plain)
    next
      case esc
      have "uri_unescape (g_uri_escape_string cs) = cs"
        using 1 Cons by simp
      then show ?thesis
        using esc Cons
        by (simp add: g_uri_escape_string_Cons uri_unescape_triple del: uri_unescape.simps)
    qed
  qed
qed

lemma g_uri_escape_string_inj:
  "g_uri_escape_string a = g_uri_escape_string b \<Longrightarrow> a = b"
  by (metis uri_unescape_escape)

subsection \<open>One connection file per access point\<close>

lemma append_interface_name_ok:
  assumes "set_name def \<noteq> None \<or> \<not> has_match def
         \<or> (\<forall>n. original_name (match def) = Some n \<longrightarrow> strpbrk n ''*[]?'' = None)"
  shows "\<exists>s'. append_interface_name def s w = Inr (s @ s')"
  using assms
  by (auto simp: append_interface_name_def split: option.splits)

lemma append_physical_link_ok: "\<exists>s'. append_physical_link def s = Inr (s @ s')"
  by (cases "type def")
     (auto simp: append_physical_link_def ND_VIRTUAL_def Let_def split: option.splits)

lemma access_point_written:
  assumes "type def = ND_WIFI"
    and "set_name def \<noteq> None \<or> \<not> has_match def
         \<or> (\<forall>n. original_name (match def) = Some n \<longrightarrow> strpbrk n ''*[]?'' = None)"
    and "\<not> write_fails w rootdir
           (''run/NetworkManager/system-connections/ubuntu-network-'' @ id_nd def @ ''-''
              @ g_uri_escape_string (ssid a))"
  shows "\<exists>pre. write_nm_conf_access_point def rootdir (Some a) w =
           (Inr (), w\<lparr>artifacts := artifacts w @
              [\<lparr>art_root = rootdir,
                art_path = ''run/NetworkManager/system-connections/ubuntu-network-'' @ id_nd def
                             @ ''-'' @ g_uri_escape_string (ssid a),
                art_content = pre
                  @ (if mode a = WIFI_MODE_AP then ''\<newline>[ipv4]\<newline>method=shared\<newline>'' else [])
                  @ ''\<newline>[wifi]\<newline>ssid='' @ ssid a @ ''\<newline>mode='' @ wifi_mode_str (mode a) @ ''\<newline>''
                  @ (case password a of
                       Some pw \<Rightarrow> ''\<newline>[wifi-security]\<newline>key-mgmt=wpa-psk\<newline>psk='' @ pw @ ''\<newline>''
                     | None \<Rightarrow> []),
                art_umask = 63\<rparr>]\<rparr>)"
proof -
  let ?s2 = "''[connection]\<newline>id=ubuntu-network-'' @ id_nd def @ ''-'' @ ssid a
               @ ''\<newline>type='' @ type_str (type def) @ ''\<newline>''"
  obtain x3 where s3: "append_interface_name def ?s2 w = Inr (?s2 @ x3)"
    using append_interface_name_ok [OF assms(2)] by blast
  let ?s4 = "(case bridge def of
               Some b \<Rightarrow> (?s2 @ x3) @ ''slave-type=bridge\<newline>master='' @ b @ ''\<newline>''
             | None \<Rightarrow> ?s2 @ x3)"
  obtain x5 where s5: "append_physical_link def ?s4 = Inr (?s4 @ x5)"
    using append_physical_link_ok by blast
  let ?s6 = "(if dhcp4 def then (?s4 @ x5) @ ''\<newline>[ipv4]\<newline>method=auto\<newline>'' else ?s4 @ x5)"
  have "write_nm_conf_access_point def rootdir (Some a) w =
           (Inr (), w\<lparr>artifacts := artifacts w @
              [\<lparr>art_root = rootdir,
                art_path = ''run/NetworkManager/system-connections/ubuntu-network-'' @ id_nd def
                             @ ''-'' @ g_uri_escape_string (ssid a),
                art_content = ?s6
                  @ (if mode a = WIFI_MODE_AP then ''\<newline>[ipv4]\<newline>method=shared\<newline>'' else [])
                  @ ''\<newline>[wifi]\<newline>ssid='' @ ssid a @ ''\<newline>mode='' @ wifi_mode_str (mode a) @ ''\<newline>''
                  @ (case password a of
                       Some pw \<Rightarrow> ''\<newline>[wifi-security]\<newline>key-mgmt=wpa-psk\<newline>psk='' @ pw @ ''\<newline>''
                     | None \<Rightarrow> []),
                art_umask = 63\<rparr>]\<rparr>)"
    using assms(1,3) s3 s5
    by (simp add: write_nm_conf_access_point_def append_wifi_def sys_umask_def
          g_string_free_to_file_def Let_def split: option.splits)
  then show ?thesis by blast
qed

lemma access_points_written:
  assumes "type def = ND_WIFI"
    and "set_name def \<noteq> None \<or> \<not> has_match def
         \<or> (\<forall>n. original_name (match def) = Some n \<longrightarrow> strpbrk n ''*[]?'' = None)"
    and "\<forall>(k, a)\<in>set aps. \<not> write_fails w rootdir
           (''run/NetworkManager/system-connections/ubuntu-network-'' @ id_nd def @ ''-''
              @ g_uri_escape_string (ssid a))"
  shows "\<exists>new. write_nm_conf_access_points def rootdir aps w
                  = (Inr (), w\<lparr>artifacts := artifacts w @ new\<rparr>)
             \<and> list_all2 (\<lambda>(k, a) art. ap_artifact def rootdir a art) aps new"
  using assms(3)
proof (induction aps arbitrary: w)
  case Nil
  have "write_nm_conf_access_points def rootdir [] w = (Inr (), w\<lparr>artifacts := artifacts w @ []\<rparr>)"
    by simp
  then show ?case by (intro exI [of _ "[]"]) simp
next
  case (Cons ka rest)
  obtain k a where ka: "ka = (k, a)" by (cases ka)
  have ok: "\<not> write_fails w rootdir
           (''run/NetworkManager/system-connections/ubuntu-network-'' @ id_nd def @ ''-''
              @ g_uri_escape_string (ssid a))"
    using Cons.prems ka by simp
  from access_point_written [OF assms(1,2) ok]
  obtain art where
    step: "write_nm_conf_access_point def rootdir (Some a) w
             = (Inr (), w\<lparr>artifacts := artifacts w @ [art]\<rparr>)"
    and art: "ap_artifact def rootdir a art"
    unfolding ap_artifact_def by blast
  let ?w1 = "w\<lparr>artifacts := artifacts w @ [art]\<rparr>"
  have "\<forall>(k, a)\<in>set rest. \<not> write_fails ?w1 rootdir
           (''run/NetworkManager/system-connections/ubuntu-network-'' @ id_nd def @ ''-''
              @ g_uri_escape_string (ssid a))"
    using Cons.prems by simp
  from Cons.IH [OF this]
  obtain new where
    rest: "write_nm_conf_access_points def rootdir rest ?w1
             = (Inr (), ?w1\<lparr>artifacts := artifacts ?w1 @ new\<rparr>)"
    and rel: "list_all2 (\<lambda>(k, a) art. ap_artifact def rootdir a art) rest new"
    by blast
  have "write_nm_conf_access_points def rootdir (ka # rest) w
          = (Inr (), w\<lparr>artifacts := artifacts w @ (art # new)\<rparr>)"
    using step rest ka by simp
  moreover have "list_all2 (\<lambda>(k, a) art. ap_artifact def rootdir a art) (ka # rest) (art # new)"
    using art rel ka by simp
  ultimately show ?case by blast
qed

lemma ap_artifact_ssid:
  assumes "ap_artifact def rootdir a art"
  shows "\<exists>pre post. art_content art
           = pre @ ''\<newline>[wifi]\<newline>ssid='' @ ssid a @ ''\<newline>mode='' @ post"
proof -
  from assms obtain pre where "art_content art =
      (pre @ (if mode a = WIFI_MODE_AP then ''\<newline>[ipv4]\<newline>method=shared\<newline>'' else []))
        @ ''\<newline>[wifi]\<newline>ssid='' @ ssid a @ ''\<newline>mode='' @ (wifi_mode_str (mode a) @ ''\<newline>''
        @ (case password a of
             Some pw \<Rightarrow> ''\<newline>[wifi-security]\<newline>key-mgmt=wpa-psk\<newline>psk='' @ pw @ ''\<newline>''
           | None \<Rightarrow> []))"
    by (auto simp: ap_artifact_def)
  then show ?thesis by blast
qed

lemma ap_artifact_place:
  assumes "ap_artifact def rootdir a art"
  shows "art_root art = rootdir"
    and "art_path art = ''run/NetworkManager/system-connections/ubuntu-network-'' @ id_nd def
                          @ ''-'' @ g_uri_escape_string (ssid a)"
    and "art_umask art = 63"
  using assms by (auto simp: ap_artifact_def)

lemma esc_home: "g_uri_escape_string ''Home'' = ''Home''"
  by (simp add: g_uri_escape_string_def is_valid_def g_ascii_isalnum_def)

lemma esc_guest: "g_uri_escape_string ''Guest Net/5'' = ''Guest%20Net%2F5''"
  by (simp add: g_uri_escape_string_def is_valid_def g_ascii_isalnum_def hex_def)

text \<open>
  C5. The claim as stated fails for a wifi definition that the renderer rejects: with a
  glob in \<open>match.original_name\<close> (and no \<open>set_name\<close>), or with \<open>match.driver\<close> set
  (and no \<open>set_name\<close>), the process exits and no artifact is written, although the
  definition has one access point.
\<close>

theorem wifi_artifacts_counterexample:
  "backend (wlan0\<lparr>has_match := True, match := no_match\<lparr>original_name := Some ''wl*''\<rparr>\<rparr>) = BACKEND_NM
   \<and> type (wlan0\<lparr>has_match := True, match := no_match\<lparr>original_name := Some ''wl*''\<rparr>\<rparr>) = ND_WIFI
   \<and> access_points (wlan0\<lparr>has_match := True, match := no_match\<lparr>original_name := Some ''wl*''\<rparr>\<rparr>)
       = Some [(''Home'', home_ap)]
   \<and> fst (write_nm_conf (wlan0\<lparr>has_match := True, match := no_match\<lparr>original_name := Some ''wl*''\<rparr>\<rparr>) None w0)
       = Inl (Exit 1)
   \<and> artifacts (snd (write_nm_conf (wlan0\<lparr>has_match := True, match := no_match\<lparr>original_name := Some ''wl*''\<rparr>\<rparr>) None w0))
       = []
   \<and> fst (write_nm_conf (wlan0\<lparr>match := no_match\<lparr>driver := Some ''iwlwifi''\<rparr>\<rparr>) None w0) = Inl (Exit 1)
   \<and> artifacts (snd (write_nm_conf (wlan0\<lparr>match := no_match\<lparr>driver := Some ''iwlwifi''\<rparr>\<rparr>) None w0)) = []"
  by (simp add: write_nm_conf_def write_nm_conf_access_point_def append_interface_name_def
        wlan0_def no_match_def w0_def ND_VIRTUAL_def)

text \<open>
  C5, amended. For every physical-wifi definition owned by this backend that passes the
  driver test and the globbing test, with \<open>N\<close> access points (a table keyed by SSID, so
  the SSIDs are pairwise distinct) and with every write succeeding, rendering returns
  normally and writes exactly \<open>N\<close> artifacts, one per access point in the order of the
  iteration: each at the path \<open>run/NetworkManager/system-connections/ubuntu-network-<id>-<escaped
  SSID>\<close>, the paths pairwise distinct, and each content carrying the unescaped SSID in
  its \<open>ssid=\<close> line.
\<close>

theorem wifi_one_artifact_per_access_point:
  assumes "backend def = BACKEND_NM"
    and "type def = ND_WIFI"
    and "access_points def = Some aps"
    and "distinct (map fst aps)"
    and "\<forall>(k, a)\<in>set aps. k = ssid a"
    and "driver (match def) = None \<or> set_name def \<noteq> None"
    and "set_name def \<noteq> None \<or> \<not> has_match def
         \<or> (\<forall>n. original_name (match def) = Some n \<longrightarrow> strpbrk n ''*[]?'' = None)"
    and "\<forall>(k, a)\<in>set aps. \<not> write_fails w rootdir
           (''run/NetworkManager/system-connections/ubuntu-network-'' @ id_nd def @ ''-''
              @ g_uri_escape_string (ssid a))"
  shows "\<exists>new. write_nm_conf def rootdir w = (Inr (), w\<lparr>artifacts := artifacts w @ new\<rparr>)
           \<and> length new = length aps
           \<and> distinct (map art_path new)
           \<and> list_all2 (\<lambda>(k, a) art.
                 art_root art = rootdir
               \<and> art_path art = ''run/NetworkManager/system-connections/ubuntu-network-'' @ id_nd def
                                  @ ''-'' @ g_uri_escape_string (ssid a)
               \<and> (\<exists>pre post. art_content art
                                 = pre @ ''\<newline>[wifi]\<newline>ssid='' @ ssid a @ ''\<newline>mode='' @ post))
               aps new"
proof -
  from access_points_written [OF assms(2,7,8)]
  obtain new where
    run: "write_nm_conf_access_points def rootdir aps w
            = (Inr (), w\<lparr>artifacts := artifacts w @ new\<rparr>)"
    and rel: "list_all2 (\<lambda>(k, a) art. ap_artifact def rootdir a art) aps new"
    by blast
  have whole: "write_nm_conf def rootdir w = (Inr (), w\<lparr>artifacts := artifacts w @ new\<rparr>)"
    using assms(1,2,3,6) run by (auto simp: write_nm_conf_def)
  have len: "length new = length aps"
    using rel by (simp add: list_all2_lengthD)
  have paths: "map art_path new
                 = map (\<lambda>(k, a). ''run/NetworkManager/system-connections/ubuntu-network-'' @ id_nd def
                                  @ ''-'' @ g_uri_escape_string (ssid a)) aps"
    using rel by (induction aps new rule: list_all2_induct) (auto simp: ap_artifact_def)
  have ssids: "distinct (map (\<lambda>(k, a). ssid a) aps)"
  proof -
    have "map (\<lambda>(k, a). ssid a) aps = map fst aps"
      using assms(5) by (intro map_cong) auto
    then show ?thesis using assms(4) by (simp only:)
  qed
  have inj: "inj_on (\<lambda>s. ''run/NetworkManager/system-connections/ubuntu-network-'' @ id_nd def
                                  @ ''-'' @ g_uri_escape_string s) (set (map (\<lambda>(k, a). ssid a) aps))"
    by (rule inj_onI) (auto dest: g_uri_escape_string_inj)
  have "map (\<lambda>(k, a). ''run/NetworkManager/system-connections/ubuntu-network-'' @ id_nd def
                                  @ ''-'' @ g_uri_escape_string (ssid a)) aps
          = map (\<lambda>s. ''run/NetworkManager/system-connections/ubuntu-network-'' @ id_nd def
                                  @ ''-'' @ g_uri_escape_string s) (map (\<lambda>(k, a). ssid a) aps)"
    by (simp add: case_prod_beta comp_def)
  then have dist: "distinct (map art_path new)"
    using paths ssids inj by (simp only: distinct_map)
  have props: "list_all2 (\<lambda>(k, a) art.
                 art_root art = rootdir
               \<and> art_path art = ''run/NetworkManager/system-connections/ubuntu-network-'' @ id_nd def
                                  @ ''-'' @ g_uri_escape_string (ssid a)
               \<and> (\<exists>pre post. art_content art
                                 = pre @ ''\<newline>[wifi]\<newline>ssid='' @ ssid a @ ''\<newline>mode='' @ post))
               aps new"
  proof (rule list_all2_mono [OF rel], goal_cases)
    case (1 ka art)
    obtain k a where ka: "ka = (k, a)" by (cases ka)
    with 1 have ap: "ap_artifact def rootdir a art" by simp
    from ap_artifact_place(1,2) [OF ap] ap_artifact_ssid [OF ap]
    show ?case unfolding ka prod.case by blast
  qed
  from whole len dist props show ?thesis by blast
qed

theorem wifi_one_artifact_per_access_point_witness:
  "backend wlan1 = BACKEND_NM \<and> type wlan1 = ND_WIFI
   \<and> access_points wlan1 = Some [(''Home'', home_ap), (''Guest Net/5'', guest_ap)]
   \<and> fst (write_nm_conf wlan1 None w0) = Inr ()
   \<and> map art_path (artifacts (snd (write_nm_conf wlan1 None w0)))
       = [''run/NetworkManager/system-connections/ubuntu-network-wlan1-Home'',
          ''run/NetworkManager/system-connections/ubuntu-network-wlan1-Guest%20Net%2F5'']
   \<and> art_content (artifacts (snd (write_nm_conf wlan1 None w0)) ! 1)
       = ''[connection]\<newline>id=ubuntu-network-wlan1-Guest Net/5\<newline>type=wifi\<newline>interface-name=wlan1\<newline>''
         @ ''\<newline>[ethernet]\<newline>wake-on-lan=0\<newline>''
         @ ''\<newline>[wifi]\<newline>ssid=Guest Net/5\<newline>mode=infrastructure\<newline>''"
proof -
  let ?aps = "[(''Home'', home_ap), (''Guest Net/5'', guest_ap)]"
  have h1: "backend wlan1 = BACKEND_NM" by (simp add: wlan1_def wlan0_def)
  have h2: "type wlan1 = ND_WIFI" by (simp add: wlan1_def wlan0_def)
  have h3: "access_points wlan1 = Some ?aps" by (simp add: wlan1_def)
  have h4: "distinct (map fst ?aps)" by simp
  have h5: "\<forall>(k, a)\<in>set ?aps. k = ssid a" by (simp add: home_ap_def guest_ap_def)
  have h6: "driver (match wlan1) = None \<or> set_name wlan1 \<noteq> None"
    by (simp add: wlan1_def wlan0_def no_match_def)
  have h7: "set_name wlan1 \<noteq> None \<or> \<not> has_match wlan1
         \<or> (\<forall>n. original_name (match wlan1) = Some n \<longrightarrow> strpbrk n ''*[]?'' = None)"
    by (simp add: wlan1_def wlan0_def)
  have h8: "\<forall>(k, a)\<in>set ?aps. \<not> write_fails w0 None
           (''run/NetworkManager/system-connections/ubuntu-network-'' @ id_nd wlan1 @ ''-''
              @ g_uri_escape_string (ssid a))"
    by (simp add: w0_def)
  from wifi_one_artifact_per_access_point [OF h1 h2 h3 h4 h5 h6 h7 h8]
  obtain new where
    run: "write_nm_conf wlan1 None w0 = (Inr (), w0\<lparr>artifacts := artifacts w0 @ new\<rparr>)"
    and len: "length new = length ?aps"
    and rel: "list_all2 (\<lambda>(k, a) art.
                 art_root art = None
               \<and> art_path art = ''run/NetworkManager/system-connections/ubuntu-network-'' @ id_nd wlan1
                                  @ ''-'' @ g_uri_escape_string (ssid a)
               \<and> (\<exists>pre post. art_content art
                                 = pre @ ''\<newline>[wifi]\<newline>ssid='' @ ssid a @ ''\<newline>mode='' @ post))
               ?aps new"
    by blast
  from len obtain x y where new: "new = [x, y]"
    by (cases new; cases "tl new") auto
  have paths: "map art_path new
       = [''run/NetworkManager/system-connections/ubuntu-network-wlan1-Home'',
          ''run/NetworkManager/system-connections/ubuntu-network-wlan1-Guest%20Net%2F5'']"
    using rel unfolding new
    by (simp add: wlan1_def home_ap_def guest_ap_def esc_home esc_guest)
  have direct: "art_content (artifacts (snd (write_nm_conf wlan1 None w0)) ! 1)
       = ''[connection]\<newline>id=ubuntu-network-wlan1-Guest Net/5\<newline>type=wifi\<newline>interface-name=wlan1\<newline>''
         @ ''\<newline>[ethernet]\<newline>wake-on-lan=0\<newline>''
         @ ''\<newline>[wifi]\<newline>ssid=Guest Net/5\<newline>mode=infrastructure\<newline>''"
    by (simp add: write_nm_conf_def write_nm_conf_access_point_def append_interface_name_def
        append_physical_link_def append_wifi_def sys_umask_def g_string_free_to_file_def
        wlan1_def wlan0_def home_ap_def guest_ap_def no_match_def w0_def ND_VIRTUAL_def
        esc_home esc_guest)
  show ?thesis
    using h1 h2 h3 run paths direct by (simp add: w0_def)
qed

text \<open>
  C8. The claim as stated fails on definitions of its own domain (wifi, one access point
  in access-point mode with a password): with a glob in \<open>match.original_name\<close>, or with
  \<open>match.driver\<close> set, the renderer's tests end the process and nothing is written; a
  definition of another backend is skipped; and when the write fails the process ends
  inside the writer, with the mask still \<open>077\<close> (63) and not the prior \<open>022\<close> (18).
\<close>

theorem access_point_mode_counterexample:
  "type (wlan0\<lparr>has_match := True, match := no_match\<lparr>original_name := Some ''wl*''\<rparr>\<rparr>) = ND_WIFI
   \<and> access_points (wlan0\<lparr>has_match := True, match := no_match\<lparr>original_name := Some ''wl*''\<rparr>\<rparr>)
       = Some [(''Home'', \<lparr>ssid = ''Home'', mode = WIFI_MODE_AP, password = Some ''secret123''\<rparr>)]
   \<and> write_nm_conf (wlan0\<lparr>has_match := True, match := no_match\<lparr>original_name := Some ''wl*''\<rparr>\<rparr>) None w0
       = (Inl (Exit 1),
          w0\<lparr>stderr := ''ERROR: wlan0: NetworkManager definitions do not support name globbing\<newline>''\<rparr>)
   \<and> write_nm_conf (wlan0\<lparr>has_match := True, match := no_match\<lparr>driver := Some ''iwlwifi''\<rparr>\<rparr>) None w0
       = (Inl (Exit 1),
          w0\<lparr>stderr := ''ERROR: wlan0: NetworkManager definitions do not support matching by driver\<newline>''\<rparr>)
   \<and> write_nm_conf (wlan0\<lparr>backend := BACKEND_NETWORKD\<rparr>) None w0 = (Inr (), w0)
   \<and> artifacts w0 = []
   \<and> fst (write_nm_conf wlan0 None (w0\<lparr>write_fails := (\<lambda>r p. True)\<rparr>)) = Inl (Exit 1)
   \<and> artifacts (snd (write_nm_conf wlan0 None (w0\<lparr>write_fails := (\<lambda>r p. True)\<rparr>))) = []
   \<and> umask (w0\<lparr>write_fails := (\<lambda>r p. True)\<rparr>) = 18
   \<and> umask (snd (write_nm_conf wlan0 None (w0\<lparr>write_fails := (\<lambda>r p. True)\<rparr>))) = 63"
  by (simp add: write_nm_conf_def write_nm_conf_access_point_def append_interface_name_def
        append_physical_link_def append_wifi_def sys_umask_def g_string_free_to_file_def
        wlan0_def home_ap_def no_match_def w0_def ND_VIRTUAL_def)

text \<open>
  C8, amended. For a physical-wifi definition owned by this backend that passes the driver
  test and the globbing test, with one access point in access-point mode that carries a
  password, and with the write succeeding: rendering writes exactly one artifact; its
  content contains the section \<open>[ipv4]\<close> with \<open>method=shared\<close> and ends with the
  section \<open>[wifi-security]\<close> whose \<open>psk=\<close> line is the password in clear; the file is
  created under the mask \<open>077\<close> (63), and after the call the process's mask is what it
  was before.
\<close>

theorem access_point_mode_artifact:
  assumes "backend def = BACKEND_NM"
    and "type def = ND_WIFI"
    and "access_points def = Some [(k, a)]"
    and "mode a = WIFI_MODE_AP"
    and "password a = Some pw"
    and "driver (match def) = None \<or> set_name def \<noteq> None"
    and "set_name def \<noteq> None \<or> \<not> has_match def
         \<or> (\<forall>n. original_name (match def) = Some n \<longrightarrow> strpbrk n ''*[]?'' = None)"
    and "\<not> write_fails w rootdir
           (''run/NetworkManager/system-connections/ubuntu-network-'' @ id_nd def @ ''-''
              @ g_uri_escape_string (ssid a))"
  shows "\<exists>art. write_nm_conf def rootdir w = (Inr (), w\<lparr>artifacts := artifacts w @ [art]\<rparr>)
           \<and> (\<exists>pre post. art_content art = pre @ ''\<newline>[ipv4]\<newline>method=shared\<newline>'' @ post)
           \<and> (\<exists>pre. art_content art
                        = pre @ ''\<newline>[wifi-security]\<newline>key-mgmt=wpa-psk\<newline>psk='' @ pw @ ''\<newline>'')
           \<and> art_umask art = 63
           \<and> umask (snd (write_nm_conf def rootdir w)) = umask w"
proof -
  from access_point_written [OF assms(2,7,8)]
  obtain pre where step: "write_nm_conf_access_point def rootdir (Some a) w =
           (Inr (), w\<lparr>artifacts := artifacts w @
              [\<lparr>art_root = rootdir,
                art_path = ''run/NetworkManager/system-connections/ubuntu-network-'' @ id_nd def
                             @ ''-'' @ g_uri_escape_string (ssid a),
                art_content = pre
                  @ (if mode a = WIFI_MODE_AP then ''\<newline>[ipv4]\<newline>method=shared\<newline>'' else [])
                  @ ''\<newline>[wifi]\<newline>ssid='' @ ssid a @ ''\<newline>mode='' @ wifi_mode_str (mode a) @ ''\<newline>''
                  @ (case password a of
                       Some pw \<Rightarrow> ''\<newline>[wifi-security]\<newline>key-mgmt=wpa-psk\<newline>psk='' @ pw @ ''\<newline>''
                     | None \<Rightarrow> []),
                art_umask = 63\<rparr>]\<rparr>)"
    by blast
  let ?c = "pre @ ''\<newline>[ipv4]\<newline>method=shared\<newline>''
              @ ''\<newline>[wifi]\<newline>ssid='' @ ssid a @ ''\<newline>mode='' @ wifi_mode_str (mode a) @ ''\<newline>''
              @ ''\<newline>[wifi-security]\<newline>key-mgmt=wpa-psk\<newline>psk='' @ pw @ ''\<newline>''"
  let ?art = "\<lparr>art_root = rootdir,
                art_path = ''run/NetworkManager/system-connections/ubuntu-network-'' @ id_nd def
                             @ ''-'' @ g_uri_escape_string (ssid a),
                art_content = ?c, art_umask = 63\<rparr>"
  have run: "write_nm_conf def rootdir w = (Inr (), w\<lparr>artifacts := artifacts w @ [?art]\<rparr>)"
    using assms(1-6) step by (auto simp: write_nm_conf_def)
  have c1: "\<exists>p q. art_content ?art = p @ ''\<newline>[ipv4]\<newline>method=shared\<newline>'' @ q"
    unfolding artifact.simps by (rule exI [of _ pre], rule exI) (rule refl)
  have c2: "\<exists>p. art_content ?art
                   = p @ ''\<newline>[wifi-security]\<newline>key-mgmt=wpa-psk\<newline>psk='' @ pw @ ''\<newline>''"
    unfolding artifact.simps
    by (rule exI [of _ "pre @ ''\<newline>[ipv4]\<newline>method=shared\<newline>''
              @ ''\<newline>[wifi]\<newline>ssid='' @ ssid a @ ''\<newline>mode='' @ wifi_mode_str (mode a) @ ''\<newline>''"])
       (simp only: append_assoc)
  have c3: "art_umask ?art = 63" by simp
  have c4: "umask (snd (write_nm_conf def rootdir w)) = umask w"
    unfolding run by simp
  from run c1 c2 c3 c4 show ?thesis by blast
qed

theorem access_point_mode_artifact_witness:
  "backend wlan0 = BACKEND_NM \<and> type wlan0 = ND_WIFI
   \<and> access_points wlan0 = Some [(''Home'', \<lparr>ssid = ''Home'', mode = WIFI_MODE_AP, password = Some ''secret123''\<rparr>)]
   \<and> write_nm_conf wlan0 None w0 =
       (Inr (), w0\<lparr>artifacts :=
          [\<lparr>art_root = None,
            art_path = ''run/NetworkManager/system-connections/ubuntu-network-wlan0-Home'',
            art_content =
              ''[connection]\<newline>id=ubuntu-network-wlan0-Home\<newline>type=wifi\<newline>interface-name=wlan0\<newline>''
              @ ''\<newline>[ethernet]\<newline>wake-on-lan=0\<newline>''
              @ ''\<newline>[ipv4]\<newline>method=shared\<newline>''
              @ ''\<newline>[wifi]\<newline>ssid=Home\<newline>mode=ap\<newline>''
              @ ''\<newline>[wifi-security]\<newline>key-mgmt=wpa-psk\<newline>psk=secret123\<newline>'',
            art_umask = 63\<rparr>]\<rparr>)
   \<and> umask (snd (write_nm_conf wlan0 None w0)) = 18"
proof -
  have h1: "backend wlan0 = BACKEND_NM" by (simp add: wlan0_def)
  have h2: "type wlan0 = ND_WIFI" by (simp add: wlan0_def)
  have h3: "access_points wlan0 = Some [(''Home'', home_ap)]" by (simp add: wlan0_def)
  have h4: "mode home_ap = WIFI_MODE_AP" by (simp add: home_ap_def)
  have h5: "password home_ap = Some ''secret123''" by (simp add: home_ap_def)
  have h6: "driver (match wlan0) = None \<or> set_name wlan0 \<noteq> None"
    by (simp add: wlan0_def no_match_def)
  have h7: "set_name wlan0 \<noteq> None \<or> \<not> has_match wlan0
         \<or> (\<forall>n. original_name (match wlan0) = Some n \<longrightarrow> strpbrk n ''*[]?'' = None)"
    by (simp add: wlan0_def)
  have h8: "\<not> write_fails w0 None
           (''run/NetworkManager/system-connections/ubuntu-network-'' @ id_nd wlan0 @ ''-''
              @ g_uri_escape_string (ssid home_ap))"
    by (simp add: w0_def)
  have direct: "write_nm_conf wlan0 None w0 =
       (Inr (), w0\<lparr>artifacts :=
          [\<lparr>art_root = None,
            art_path = ''run/NetworkManager/system-connections/ubuntu-network-wlan0-Home'',
            art_content =
              ''[connection]\<newline>id=ubuntu-network-wlan0-Home\<newline>type=wifi\<newline>interface-name=wlan0\<newline>''
              @ ''\<newline>[ethernet]\<newline>wake-on-lan=0\<newline>''
              @ ''\<newline>[ipv4]\<newline>method=shared\<newline>''
              @ ''\<newline>[wifi]\<newline>ssid=Home\<newline>mode=ap\<newline>''
              @ ''\<newline>[wifi-security]\<newline>key-mgmt=wpa-psk\<newline>psk=secret123\<newline>'',
            art_umask = 63\<rparr>]\<rparr>)"
    by (simp add: write_nm_conf_def write_nm_conf_access_point_def append_interface_name_def
        append_physical_link_def append_wifi_def sys_umask_def g_string_free_to_file_def
        wlan0_def home_ap_def no_match_def w0_def ND_VIRTUAL_def esc_home)
  show ?thesis
    using access_point_mode_artifact [OF h1 h2 h3 h4 h5 h6 h7 h8] h1 h2 h3 direct
    by (simp add: home_ap_def w0_def)
qed

subsection \<open>The aggregate artifacts\<close>

lemma encoder_on_buffer:
  "g_string_append_netdef_match s nd =
     (case g_string_append_netdef_match [] nd of Inl e \<Rightarrow> Inl e | Inr x \<Rightarrow> Inr (s @ x))"
  by (auto simp: g_string_append_netdef_match_def split: option.splits netdef_type.splits)

lemma encoder_total:
  assumes "driver (match nd) = None"
    and "type nd = ND_WIFI \<longrightarrow>
          mac (match nd) \<noteq> None \<or> original_name (match nd) \<noteq> None \<or> set_name nd \<noteq> None"
  shows "\<exists>x. g_string_append_netdef_match [] nd = Inr x"
  using assms
  by (cases "type nd")
     (auto simp: g_string_append_netdef_match_def ND_VIRTUAL_def split: option.splits)

lemma excluded_specifiers_Cons:
  "excluded_specifiers (kv # rest) = excluded_specifiers [kv] @ excluded_specifiers rest"
  by (simp add: excluded_specifiers_def)

lemma excluded_drivers_Cons:
  "excluded_drivers (kv # rest) = excluded_drivers [kv] @ excluded_drivers rest"
  by (simp add: excluded_drivers_def)

lemma rules_after_append: "rules_after (a @ b) r = rules_after b (rules_after a r)"
  by (auto simp: rules_after_def split: option.splits)

lemma standing_invariant_Cons:
  "standing_invariant (kv # rest) \<longleftrightarrow> standing_invariant [kv] \<and> standing_invariant rest"
  by (auto simp: standing_invariant_def)

lemma nd_append_non_nm_ids_step:
  assumes "standing_invariant [(key, nd)]"
  shows "nd_append_non_nm_ids key nd s w =
           (Inr (s @ concat (map (\<lambda>x. x @ '','') (excluded_specifiers [(key, nd)]))),
            w\<lparr>udev_rules := rules_after (excluded_drivers [(key, nd)]) (udev_rules w)\<rparr>)"
proof (cases "backend nd \<noteq> BACKEND_NM \<and> driver (match nd) = None")
  case True
  then have "type nd = ND_WIFI \<longrightarrow>
          mac (match nd) \<noteq> None \<or> original_name (match nd) \<noteq> None \<or> set_name nd \<noteq> None"
    using assms by (simp add: standing_invariant_def)
  with True obtain x where x: "g_string_append_netdef_match [] nd = Inr x"
    using encoder_total by blast
  then have "g_string_append_netdef_match s nd = Inr (s @ x)"
    by (subst encoder_on_buffer) simp
  with True x show ?thesis
    by (simp add: nd_append_non_nm_ids_def excluded_specifiers_def excluded_drivers_def
          rules_after_def)
next
  case False
  then show ?thesis
    by (auto simp: nd_append_non_nm_ids_def excluded_specifiers_def excluded_drivers_def
          rules_after_def split: option.splits)
qed

lemma foreach_collects:
  assumes "standing_invariant netdefs"
  shows "g_hash_table_foreach netdefs nd_append_non_nm_ids s w =
           (Inr (s @ concat (map (\<lambda>x. x @ '','') (excluded_specifiers netdefs))),
            w\<lparr>udev_rules := rules_after (excluded_drivers netdefs) (udev_rules w)\<rparr>)"
  using assms
proof (induction netdefs arbitrary: s w)
  case Nil
  show ?case
    by (simp add: excluded_specifiers_def excluded_drivers_def rules_after_def)
next
  case (Cons kv rest)
  obtain key nd where kv: "kv = (key, nd)" by (cases kv)
  from Cons.prems have one: "standing_invariant [(key, nd)]" and more: "standing_invariant rest"
    using standing_invariant_Cons [of kv rest] kv by simp_all
  show ?case
    unfolding kv
    by (simp add: nd_append_non_nm_ids_step [OF one] Cons.IH [OF more]
          excluded_specifiers_Cons [of "(key, nd)" rest]
          excluded_drivers_Cons [of "(key, nd)" rest] rules_after_append)
qed


lemma excluded_specifiers_append:
  "excluded_specifiers (a @ b) = excluded_specifiers a @ excluded_specifiers b"
  by (simp add: excluded_specifiers_def)

lemma specifier_entries_empty:
  "concat (map (\<lambda>x. x @ '','') specs) = [] \<longleftrightarrow> specs = []"
  by (cases specs) simp_all

lemma finish_writes:
  assumes "netdefs \<noteq> []"
    and "standing_invariant netdefs"
    and "\<not> write_fails w rootdir ''run/NetworkManager/conf.d/ubuntu-network.conf''"
    and "\<not> write_fails w rootdir ''run/udev/rules.d/90-ubuntu-network.rules''"
  shows "write_nm_conf_finish netdefs rootdir w =
           (Inr (),
            w\<lparr>udev_rules := rules_after (excluded_drivers netdefs) (udev_rules w),
              artifacts := artifacts w
                @ (if excluded_specifiers netdefs = [] then []
                   else [\<lparr>art_root = rootdir,
                          art_path = ''run/NetworkManager/conf.d/ubuntu-network.conf'',
                          art_content = ''[keyfile]\<newline># devices managed by networkd\<newline>unmanaged-devices+=''
                            @ concat (map (\<lambda>x. x @ '','') (excluded_specifiers netdefs)),
                          art_umask = umask w\<rparr>])
                @ (case rules_after (excluded_drivers netdefs) (udev_rules w) of
                     None \<Rightarrow> []
                   | Some rules \<Rightarrow>
                       [\<lparr>art_root = rootdir,
                         art_path = ''run/udev/rules.d/90-ubuntu-network.rules'',
                         art_content = rules,
                         art_umask = umask w\<rparr>])\<rparr>)"
proof -
  let ?s = "''[keyfile]\<newline># devices managed by networkd\<newline>unmanaged-devices+=''"
  let ?w1 = "w\<lparr>udev_rules := rules_after (excluded_drivers netdefs) (udev_rules w)\<rparr>"
  have loop: "g_hash_table_foreach netdefs nd_append_non_nm_ids ?s w =
           (Inr (?s @ concat (map (\<lambda>x. x @ '','') (excluded_specifiers netdefs))), ?w1)"
    by (rule foreach_collects [OF assms(2)])
  have grown: "length ?s < length (?s @ concat (map (\<lambda>x. x @ '','') (excluded_specifiers netdefs)))
                 \<longleftrightarrow> excluded_specifiers netdefs \<noteq> []"
    using specifier_entries_empty [of "excluded_specifiers netdefs"] by auto
  show ?thesis
  proof (cases "excluded_specifiers netdefs = []")
    case True
    then show ?thesis
      using assms(1,4) loop
      by (simp add: write_nm_conf_finish_def g_string_free_to_file_def Let_def
            split: option.splits)
  next
    case False
    then have g: "length ?s < length (?s @ concat (map (\<lambda>x. x @ '','') (excluded_specifiers netdefs)))"
      using grown by simp
    show ?thesis
      using assms(1,3,4) False
      by (simp add: write_nm_conf_finish_def loop g g_string_free_to_file_def Let_def
            del: length_append split: option.splits)
  qed
qed


lemma finisher_run:
  assumes "standing_invariant netdefs"
    and "udev_rules w = None"
    and "\<not> write_fails w rootdir ''run/NetworkManager/conf.d/ubuntu-network.conf''"
    and "\<not> write_fails w rootdir ''run/udev/rules.d/90-ubuntu-network.rules''"
  shows "\<exists>w'. write_nm_conf_finish netdefs rootdir w = (Inr (), w')
             \<and> artifacts w' = artifacts w
                @ (if excluded_specifiers netdefs = [] then []
                   else [\<lparr>art_root = rootdir,
                          art_path = ''run/NetworkManager/conf.d/ubuntu-network.conf'',
                          art_content = ''[keyfile]\<newline># devices managed by networkd\<newline>unmanaged-devices+=''
                            @ concat (map (\<lambda>x. x @ '','') (excluded_specifiers netdefs)),
                          art_umask = umask w\<rparr>])
                @ (if excluded_drivers netdefs = [] then []
                   else [\<lparr>art_root = rootdir,
                          art_path = ''run/udev/rules.d/90-ubuntu-network.rules'',
                          art_content = concat (map udev_rule (excluded_drivers netdefs)),
                          art_umask = umask w\<rparr>])"
proof (cases "netdefs = []")
  case True
  then show ?thesis
    by (simp add: write_nm_conf_finish_def excluded_specifiers_def excluded_drivers_def)
next
  case False
  show ?thesis
    using assms(2)
    by (simp add: finish_writes [OF False assms(1,3,4)] rules_after_def)
qed

lemma excluded_counts:
  assumes "standing_invariant netdefs"
  shows "length (excluded_specifiers netdefs)
           = length (filter (\<lambda>(key, nd). backend nd \<noteq> BACKEND_NM \<and> driver (match nd) = None) netdefs)
       \<and> length (excluded_drivers netdefs)
           = length (filter (\<lambda>(key, nd). backend nd \<noteq> BACKEND_NM \<and> driver (match nd) \<noteq> None) netdefs)"
  using assms
proof (induction netdefs)
  case Nil
  show ?case by (simp add: excluded_specifiers_def excluded_drivers_def)
next
  case (Cons kv rest)
  obtain key nd where kv: "kv = (key, nd)" by (cases kv)
  from Cons.prems have one: "standing_invariant [(key, nd)]" and more: "standing_invariant rest"
    using standing_invariant_Cons [of kv rest] kv by simp_all
  have spec1: "length (excluded_specifiers [(key, nd)])
                 = (if backend nd \<noteq> BACKEND_NM \<and> driver (match nd) = None then 1 else 0)"
  proof (cases "backend nd \<noteq> BACKEND_NM \<and> driver (match nd) = None")
    case True
    then have "type nd = ND_WIFI \<longrightarrow>
          mac (match nd) \<noteq> None \<or> original_name (match nd) \<noteq> None \<or> set_name nd \<noteq> None"
      using one by (simp add: standing_invariant_def)
    with True obtain x where "g_string_append_netdef_match [] nd = Inr x"
      using encoder_total by blast
    with True show ?thesis by (simp add: excluded_specifiers_def)
  next
    case False
    then show ?thesis by (auto simp: excluded_specifiers_def)
  qed
  have drv1: "length (excluded_drivers [(key, nd)])
                 = (if backend nd \<noteq> BACKEND_NM \<and> driver (match nd) \<noteq> None then 1 else 0)"
    by (auto simp: excluded_drivers_def split: option.splits)
  show ?case
    unfolding kv
    using Cons.IH [OF more] spec1 drv1
          excluded_specifiers_Cons [of "(key, nd)" rest]
          excluded_drivers_Cons [of "(key, nd)" rest]
    by simp
qed

text \<open>
  C9. The claim as stated fails on two points. The directive is not comma-joined: every
  collected specifier is followed by a comma, the last one too. And the rules file has one
  rule for each definition with a driver match, not one for each driver: two definitions
  of another backend that match the same driver give the same rule twice.
\<close>

theorem finisher_artifacts_counterexample:
  \<open>standing_invariant [(''eth0'', eth0), (''eth2'', eth2), (''eth1'', eth1), (''eth3'', eth3)]
   \<and> excluded_specifiers [(''eth0'', eth0), (''eth2'', eth2), (''eth1'', eth1), (''eth3'', eth3)]
       = [''type:ethernet'', ''type:ethernet'']
   \<and> excluded_drivers [(''eth0'', eth0), (''eth2'', eth2), (''eth1'', eth1), (''eth3'', eth3)]
       = [''e1000'', ''e1000'']
   \<and> remdups [''e1000'', ''e1000''] = [''e1000'']
   \<and> write_nm_conf_finish [(''eth0'', eth0), (''eth2'', eth2), (''eth1'', eth1), (''eth3'', eth3)] None w0
       = (Inr (),
          w0\<lparr>udev_rules := Some
                 (''ACTION=="add|change", SUBSYSTEM=="net", ENV{ID_NET_DRIVER}=="e1000", ENV{NM_UNMANAGED}="1"\<newline>''
                  @ ''ACTION=="add|change", SUBSYSTEM=="net", ENV{ID_NET_DRIVER}=="e1000", ENV{NM_UNMANAGED}="1"\<newline>''),
             artifacts :=
               [\<lparr>art_root = None,
                 art_path = ''run/NetworkManager/conf.d/ubuntu-network.conf'',
                 art_content = ''[keyfile]\<newline># devices managed by networkd\<newline>unmanaged-devices+=type:ethernet,type:ethernet,'',
                 art_umask = 18\<rparr>,
                \<lparr>art_root = None,
                 art_path = ''run/udev/rules.d/90-ubuntu-network.rules'',
                 art_content =
                   ''ACTION=="add|change", SUBSYSTEM=="net", ENV{ID_NET_DRIVER}=="e1000", ENV{NM_UNMANAGED}="1"\<newline>''
                   @ ''ACTION=="add|change", SUBSYSTEM=="net", ENV{ID_NET_DRIVER}=="e1000", ENV{NM_UNMANAGED}="1"\<newline>'',
                 art_umask = 18\<rparr>]\<rparr>)
   \<and> ''[keyfile]\<newline># devices managed by networkd\<newline>unmanaged-devices+=''
         @ comma_joined [''type:ethernet'', ''type:ethernet'']
       = ''[keyfile]\<newline># devices managed by networkd\<newline>unmanaged-devices+=type:ethernet,type:ethernet''
   \<and> ''[keyfile]\<newline># devices managed by networkd\<newline>unmanaged-devices+=type:ethernet,type:ethernet,''
       \<noteq> ''[keyfile]\<newline># devices managed by networkd\<newline>unmanaged-devices+=''
           @ comma_joined [''type:ethernet'', ''type:ethernet'']
   \<and> ''ACTION=="add|change", SUBSYSTEM=="net", ENV{ID_NET_DRIVER}=="e1000", ENV{NM_UNMANAGED}="1"\<newline>''
         @ ''ACTION=="add|change", SUBSYSTEM=="net", ENV{ID_NET_DRIVER}=="e1000", ENV{NM_UNMANAGED}="1"\<newline>''
       \<noteq> concat (map (\<lambda>drv. ''ACTION=="add|change", SUBSYSTEM=="net", ENV{ID_NET_DRIVER}=="''
                                 @ drv @ ''", ENV{NM_UNMANAGED}="1"\<newline>'')
                     (remdups [''e1000'', ''e1000'']))\<close>
  by (simp add: write_nm_conf_finish_def nd_append_non_nm_ids_def
        g_string_append_netdef_match_def g_string_free_to_file_def ND_VIRTUAL_def
        udev_rule_def standing_invariant_def excluded_specifiers_def excluded_drivers_def
        eth0_def eth1_def eth2_def eth3_def no_match_def w0_def)

text \<open>
  C9, amended. With zero definitions the finisher returns at once and writes nothing.
  Otherwise, in a fresh process, with the standing invariant and both writes succeeding,
  it returns normally and writes: when the list of collected specifiers is not empty,
  exactly one artifact \<open>run/NetworkManager/conf.d/ubuntu-network.conf\<close>, a single
  \<open>[keyfile]\<close> stanza whose one directive \<open>unmanaged-devices+=\<close> lists every collected
  specifier followed by a comma, one specifier for each definition of another backend
  without a driver match; when driver exclusions were collected, exactly one artifact
  \<open>run/udev/rules.d/90-ubuntu-network.rules\<close> with one rule line
  \<open>ACTION=="add|change", SUBSYSTEM=="net", ENV{ID_NET_DRIVER}=="<driver>",
  ENV{NM_UNMANAGED}="1"\<close> for each definition of another backend with a driver match;
  and nothing else.
\<close>

theorem finisher_artifacts:
  assumes "standing_invariant netdefs"
    and "udev_rules w = None"
    and "\<not> write_fails w rootdir ''run/NetworkManager/conf.d/ubuntu-network.conf''"
    and "\<not> write_fails w rootdir ''run/udev/rules.d/90-ubuntu-network.rules''"
  shows \<open>write_nm_conf_finish [] rootdir w = (Inr (), w)
       \<and> (\<exists>w'. write_nm_conf_finish netdefs rootdir w = (Inr (), w')
             \<and> artifacts w' = artifacts w
                @ (if excluded_specifiers netdefs = [] then []
                   else [\<lparr>art_root = rootdir,
                          art_path = ''run/NetworkManager/conf.d/ubuntu-network.conf'',
                          art_content = ''[keyfile]\<newline># devices managed by networkd\<newline>unmanaged-devices+=''
                            @ concat (map (\<lambda>x. x @ '','') (excluded_specifiers netdefs)),
                          art_umask = umask w\<rparr>])
                @ (if excluded_drivers netdefs = [] then []
                   else [\<lparr>art_root = rootdir,
                          art_path = ''run/udev/rules.d/90-ubuntu-network.rules'',
                          art_content = concat (map
                            (\<lambda>drv. ''ACTION=="add|change", SUBSYSTEM=="net", ENV{ID_NET_DRIVER}=="''
                                    @ drv @ ''", ENV{NM_UNMANAGED}="1"\<newline>'')
                            (excluded_drivers netdefs)),
                          art_umask = umask w\<rparr>]))
       \<and> length (excluded_specifiers netdefs)
           = length (filter (\<lambda>(key, nd). backend nd \<noteq> BACKEND_NM \<and> driver (match nd) = None) netdefs)
       \<and> length (excluded_drivers netdefs)
           = length (filter (\<lambda>(key, nd). backend nd \<noteq> BACKEND_NM \<and> driver (match nd) \<noteq> None) netdefs)\<close>
proof -
  have none: "write_nm_conf_finish [] rootdir w = (Inr (), w)"
    by (simp add: write_nm_conf_finish_def)
  have rule: \<open>udev_rule = (\<lambda>drv. ''ACTION=="add|change", SUBSYSTEM=="net", ENV{ID_NET_DRIVER}=="''
                                    @ drv @ ''", ENV{NM_UNMANAGED}="1"\<newline>'')\<close>
    by (rule ext) (simp add: udev_rule_def)
  from finisher_run [OF assms] none excluded_counts [OF assms(1)]
  show ?thesis unfolding rule by simp
qed

theorem finisher_artifacts_witness:
  \<open>standing_invariant [(''eth0'', eth0), (''eth1'', eth1), (''wlan0'', wlan0), (''br0'', br0), (''eth3'', eth3)]
   \<and> write_nm_conf_finish [] None w0 = (Inr (), w0)
   \<and> fst (write_nm_conf_finish
            [(''eth0'', eth0), (''eth1'', eth1), (''wlan0'', wlan0), (''br0'', br0), (''eth3'', eth3)] None w0) = Inr ()
   \<and> artifacts (snd (write_nm_conf_finish
            [(''eth0'', eth0), (''eth1'', eth1), (''wlan0'', wlan0), (''br0'', br0), (''eth3'', eth3)] None w0))
       = [\<lparr>art_root = None,
           art_path = ''run/NetworkManager/conf.d/ubuntu-network.conf'',
           art_content = ''[keyfile]\<newline># devices managed by networkd\<newline>unmanaged-devices+=type:ethernet,interface-name:br0,'',
           art_umask = 18\<rparr>,
          \<lparr>art_root = None,
           art_path = ''run/udev/rules.d/90-ubuntu-network.rules'',
           art_content =
             ''ACTION=="add|change", SUBSYSTEM=="net", ENV{ID_NET_DRIVER}=="e1000", ENV{NM_UNMANAGED}="1"\<newline>''
             @ ''ACTION=="add|change", SUBSYSTEM=="net", ENV{ID_NET_DRIVER}=="e1000", ENV{NM_UNMANAGED}="1"\<newline>'',
           art_umask = 18\<rparr>]
   \<and> length (excluded_specifiers
         [(''eth0'', eth0), (''eth1'', eth1), (''wlan0'', wlan0), (''br0'', br0), (''eth3'', eth3)]) = 2
   \<and> length (excluded_drivers
         [(''eth0'', eth0), (''eth1'', eth1), (''wlan0'', wlan0), (''br0'', br0), (''eth3'', eth3)]) = 2\<close>
proof -
  let ?g = "[(''eth0'', eth0), (''eth1'', eth1), (''wlan0'', wlan0), (''br0'', br0), (''eth3'', eth3)]"
  have h1: "standing_invariant ?g"
    by (simp add: standing_invariant_def eth0_def eth1_def eth3_def wlan0_def br0_def)
  have h2: "udev_rules w0 = None" by (simp add: w0_def)
  have h3: "\<not> write_fails w0 None ''run/NetworkManager/conf.d/ubuntu-network.conf''"
    by (simp add: w0_def)
  have h4: "\<not> write_fails w0 None ''run/udev/rules.d/90-ubuntu-network.rules''"
    by (simp add: w0_def)
  have specs: "excluded_specifiers ?g = [''type:ethernet'', ''interface-name:br0'']"
    by (simp add: excluded_specifiers_def g_string_append_netdef_match_def ND_VIRTUAL_def
          eth0_def eth1_def eth3_def wlan0_def br0_def no_match_def)
  have drvs: "excluded_drivers ?g = [''e1000'', ''e1000'']"
    by (simp add: excluded_drivers_def eth0_def eth1_def eth3_def wlan0_def br0_def no_match_def)
  from finisher_artifacts [OF h1 h2 h3 h4]
  obtain w' where run: "write_nm_conf_finish ?g None w0 = (Inr (), w')"
    and arts: \<open>artifacts w' = artifacts w0
                @ (if excluded_specifiers ?g = [] then []
                   else [\<lparr>art_root = None,
                          art_path = ''run/NetworkManager/conf.d/ubuntu-network.conf'',
                          art_content = ''[keyfile]\<newline># devices managed by networkd\<newline>unmanaged-devices+=''
                            @ concat (map (\<lambda>x. x @ '','') (excluded_specifiers ?g)),
                          art_umask = umask w0\<rparr>])
                @ (if excluded_drivers ?g = [] then []
                   else [\<lparr>art_root = None,
                          art_path = ''run/udev/rules.d/90-ubuntu-network.rules'',
                          art_content = concat (map
                            (\<lambda>drv. ''ACTION=="add|change", SUBSYSTEM=="net", ENV{ID_NET_DRIVER}=="''
                                    @ drv @ ''", ENV{NM_UNMANAGED}="1"\<newline>'')
                            (excluded_drivers ?g)),
                          art_umask = umask w0\<rparr>])\<close>
    and none: "write_nm_conf_finish [] None w0 = (Inr (), w0)"
    by blast
  show ?thesis
    using h1 none run arts by (simp add: specs drvs w0_def)
qed

text \<open>
  C6. A physical ethernet definition of another backend with no match criteria (no MAC,
  driver or original name, and hence no rename target): \<open>write_nm_conf\<close> returns
  normally without writing anything, and for every table of definitions that contains it
  (standing invariant, writes succeeding) the finisher writes the unmanaged-devices
  artifact, whose directive lists \<open>type:ethernet\<close>.
\<close>

theorem unmatched_ethernet_of_other_backend:
  assumes "type nd = ND_ETHERNET"
    and "backend nd \<noteq> BACKEND_NM"
    and "mac (match nd) = None" and "driver (match nd) = None"
    and "original_name (match nd) = None" and "set_name nd = None"
    and "(key, nd) \<in> set netdefs"
    and "standing_invariant netdefs"
    and "\<not> write_fails w rootdir ''run/NetworkManager/conf.d/ubuntu-network.conf''"
    and "\<not> write_fails w rootdir ''run/udev/rules.d/90-ubuntu-network.rules''"
  shows "write_nm_conf nd rootdir w = (Inr (), w)
       \<and> (\<exists>w' new art pre post.
             write_nm_conf_finish netdefs rootdir w = (Inr (), w')
           \<and> artifacts w' = artifacts w @ new
           \<and> art \<in> set new
           \<and> art_root art = rootdir
           \<and> art_path art = ''run/NetworkManager/conf.d/ubuntu-network.conf''
           \<and> art_content art = ''[keyfile]\<newline># devices managed by networkd\<newline>unmanaged-devices+=''
                                  @ pre @ ''type:ethernet,'' @ post)"
proof -
  have noop: "write_nm_conf nd rootdir w = (Inr (), w)"
    using assms(2) by (simp add: write_nm_conf_def)
  have ne: "netdefs \<noteq> []" using assms(7) by auto
  from assms(7) obtain a b where split: "netdefs = a @ (key, nd) # b"
    by (meson split_list)
  have one: "excluded_specifiers [(key, nd)] = [''type:ethernet'']"
    using assms(1-6)
    by (simp add: excluded_specifiers_def g_string_append_netdef_match_def ND_VIRTUAL_def)
  have specs: "excluded_specifiers netdefs
                 = excluded_specifiers a @ [''type:ethernet''] @ excluded_specifiers b"
    unfolding split
    using excluded_specifiers_append [of a "(key, nd) # b"]
          excluded_specifiers_append [of "[(key, nd)]" b] one
    by simp
  let ?pre = "concat (map (\<lambda>x. x @ '','') (excluded_specifiers a))"
  let ?post = "concat (map (\<lambda>x. x @ '','') (excluded_specifiers b))"
  let ?art = "\<lparr>art_root = rootdir,
              art_path = ''run/NetworkManager/conf.d/ubuntu-network.conf'',
              art_content = ''[keyfile]\<newline># devices managed by networkd\<newline>unmanaged-devices+=''
                              @ ?pre @ ''type:ethernet,'' @ ?post,
              art_umask = umask w\<rparr>"
  let ?more = "(case rules_after (excluded_drivers netdefs) (udev_rules w) of
                     None \<Rightarrow> []
                   | Some rules \<Rightarrow>
                       [\<lparr>art_root = rootdir,
                         art_path = ''run/udev/rules.d/90-ubuntu-network.rules'',
                         art_content = rules,
                         art_umask = umask w\<rparr>])"
  have "write_nm_conf_finish netdefs rootdir w =
          (Inr (), w\<lparr>udev_rules := rules_after (excluded_drivers netdefs) (udev_rules w),
                     artifacts := artifacts w @ (?art # ?more)\<rparr>)"
    by (simp add: finish_writes [OF ne assms(8,9,10)] specs)
  then have "\<exists>w'. write_nm_conf_finish netdefs rootdir w = (Inr (), w')
               \<and> artifacts w' = artifacts w @ (?art # ?more)"
    by simp
  then obtain w' where run: "write_nm_conf_finish netdefs rootdir w = (Inr (), w')"
    and arts: "artifacts w' = artifacts w @ (?art # ?more)" by blast
  have mem: "?art \<in> set (?art # ?more)" by simp
  have r: "art_root ?art = rootdir" by simp
  have p: "art_path ?art = ''run/NetworkManager/conf.d/ubuntu-network.conf''" by simp
  have c: "art_content ?art = ''[keyfile]\<newline># devices managed by networkd\<newline>unmanaged-devices+=''
                                  @ ?pre @ ''type:ethernet,'' @ ?post"
    unfolding artifact.simps by (rule refl)
  from noop run arts mem r p c show ?thesis by blast
qed

theorem unmatched_ethernet_of_other_backend_witness:
  "type eth0 = ND_ETHERNET \<and> backend eth0 = BACKEND_NETWORKD \<and> dhcp4 eth0
   \<and> match eth0 = \<lparr>mac = None, driver = None, original_name = None\<rparr>
   \<and> write_nm_conf eth0 None w0 = (Inr (), w0)
   \<and> fst (write_nm_conf_finish [(''eth0'', eth0)] None w0) = Inr ()
   \<and> artifacts (snd (write_nm_conf_finish [(''eth0'', eth0)] None w0))
       = [\<lparr>art_root = None,
           art_path = ''run/NetworkManager/conf.d/ubuntu-network.conf'',
           art_content = ''[keyfile]\<newline># devices managed by networkd\<newline>unmanaged-devices+=type:ethernet,'',
           art_umask = 18\<rparr>]"
proof -
  have h1: "type eth0 = ND_ETHERNET" by (simp add: eth0_def)
  have h2: "backend eth0 \<noteq> BACKEND_NM" by (simp add: eth0_def)
  have h3: "mac (match eth0) = None" by (simp add: eth0_def no_match_def)
  have h4: "driver (match eth0) = None" by (simp add: eth0_def no_match_def)
  have h5: "original_name (match eth0) = None" by (simp add: eth0_def no_match_def)
  have h6: "set_name eth0 = None" by (simp add: eth0_def)
  have h7: "(''eth0'', eth0) \<in> set [(''eth0'', eth0)]" by simp
  have h8: "standing_invariant [(''eth0'', eth0)]"
    by (simp add: standing_invariant_def eth0_def)
  have h9: "\<not> write_fails w0 None ''run/NetworkManager/conf.d/ubuntu-network.conf''"
    by (simp add: w0_def)
  have h10: "\<not> write_fails w0 None ''run/udev/rules.d/90-ubuntu-network.rules''"
    by (simp add: w0_def)
  have direct: "write_nm_conf_finish [(''eth0'', eth0)] None w0
       = (Inr (), w0\<lparr>artifacts := [\<lparr>art_root = None,
           art_path = ''run/NetworkManager/conf.d/ubuntu-network.conf'',
           art_content = ''[keyfile]\<newline># devices managed by networkd\<newline>unmanaged-devices+=type:ethernet,'',
           art_umask = 18\<rparr>]\<rparr>)"
    by (simp add: write_nm_conf_finish_def nd_append_non_nm_ids_def
          g_string_append_netdef_match_def g_string_free_to_file_def ND_VIRTUAL_def
          eth0_def no_match_def w0_def)
  show ?thesis
    using unmatched_ethernet_of_other_backend [OF h1 h2 h3 h4 h5 h6 h7 h8 h9 h10] direct
    by (simp add: eth0_def no_match_def)
qed






end
